theory Spec2Isabelle
  imports Complex_Main
begin

section \<open>Tensors and the tensor engine\<close>

text \<open>
  The module \<open>astroNN/nn/losses/classification.py\<close> builds its losses from TensorFlow
  operations. A tensor is modelled by its (fully defined) shape and its elements in
  row-major order. In the first embedding the elements are real numbers and the
  arithmetic is exact: \<open>log1p x\<close> is \<open>ln (1 + x)\<close>, \<open>tf.log\<close> is \<open>ln\<close>, and where the
  engine would return a special value (a division by a zero row sum, the logarithm of a
  number that is not positive, the square root of a negative number) the model has the
  value of HOL's total function. Rounding, overflow and the IEEE special values are the
  subject of the second embedding, of the probability branch of the categorical
  cross-entropy over machine numbers. A tensor is well formed when it has as many
  elements as its shape says.
\<close>

record 'a tensor_of =
  shape :: "nat list"
  vals :: "'a list"

type_synonym tensor = "real tensor_of"

definition wf_tensor :: "'a tensor_of \<Rightarrow> bool" where
  "wf_tensor t = (length (vals t) = prod_list (shape t))"

datatype error =
    ValueError string
  | InvalidArgumentError string
  | AttributeError string

text \<open>
  The constants the module reads from its environment: \<open>MAGIC_NUMBER\<close> is imported from
  the package root \<open>astroNN\<close> and \<open>epsilon()\<close> from the Keras backend; neither is defined
  in this module, so both are parameters of the model.

  \<open>tensor_equality\<close> is the engine's meaning of Python's \<open>==\<close> on a tensor. The module
  needs TensorFlow 1.x (it imports \<open>tensorflow.contrib\<close> and calls \<open>tf.log\<close> and
  \<open>tf.random_normal\<close>). There \<open>Tensor.__eq__\<close> is object identity unless tensor
  equality has been switched on, so \<open>labels == MAGIC_NUMBER\<close> is the Python value
  \<open>False\<close> (\<open>tensor_equality = False\<close>); with tensor equality switched on it is the
  elementwise comparison that \<open>tf.equal\<close> computes (\<open>tensor_equality = True\<close>).
  \<open>tf.equal\<close> itself, which the other functions of the module call, is always elementwise.
\<close>

record config =
  MAGIC_NUMBER :: real
  epsilon :: real
  tensor_equality :: bool

datatype py_cond = PyBool bool | BoolTensor "bool list"

definition tf_equal :: "tensor \<Rightarrow> real \<Rightarrow> bool list" where
  "tf_equal t c = map (\<lambda>x. x = c) (vals t)"

definition tensor_eq :: "config \<Rightarrow> tensor \<Rightarrow> real \<Rightarrow> py_cond" where
  "tensor_eq cfg t c = (if tensor_equality cfg then BoolTensor (tf_equal t c) else PyBool False)"

text \<open>
  \<open>where(cond, x, y)\<close> on operands of one shape: elementwise for a boolean tensor, and
  all of \<open>x\<close> or all of \<open>y\<close> for a scalar condition.
\<close>

definition select :: "bool list \<Rightarrow> 'a list \<Rightarrow> 'a list \<Rightarrow> 'a list" where
  "select cs xs ys = map (\<lambda>(c, x, y). if c then x else y) (zip cs (zip xs ys))"

fun tf_where :: "py_cond \<Rightarrow> real list \<Rightarrow> real list \<Rightarrow> real list" where
  "tf_where (PyBool b) xs ys = (if b then xs else ys)"
| "tf_where (BoolTensor cs) xs ys = select cs xs ys"

definition zip_with :: "('a \<Rightarrow> 'b \<Rightarrow> 'c) \<Rightarrow> 'a list \<Rightarrow> 'b list \<Rightarrow> 'c list" where
  "zip_with f xs ys = map (\<lambda>(x, y). f x y) (zip xs ys)"

subsection \<open>Printing a shape\<close>

text \<open>
  \<open>str\<close> of a fully defined \<open>TensorShape\<close>: \<open>(2, 3)\<close>, \<open>()\<close>, and \<open>(5,)\<close> for rank one.
\<close>

fun string_of_nat :: "nat \<Rightarrow> string" where
  "string_of_nat n =
     (if n < 10 then [''0123456789'' ! n]
      else string_of_nat (n div 10) @ [''0123456789'' ! (n mod 10)])"

declare string_of_nat.simps [simp del]

fun join :: "string \<Rightarrow> string list \<Rightarrow> string" where
  "join sep [] = []"
| "join sep [x] = x"
| "join sep (x # y # ys) = x @ sep @ join sep (y # ys)"

definition shape_str :: "nat list \<Rightarrow> string" where
  "shape_str s =
     (if length s = 1 then ''('' @ string_of_nat (hd s) @ '',)''
      else ''('' @ join '', '' (map string_of_nat s) @ '')'')"

text \<open>
  \<open>str.format\<close> with positional fields: a template is a list of literal pieces and
  numbered replacement fields; field \<open>i\<close> is replaced by the \<open>i\<close>-th argument.
\<close>

datatype piece = Lit string | Field nat

definition format :: "piece list \<Rightarrow> string list \<Rightarrow> string" where
  "format template args =
     concat (map (\<lambda>p. case p of Lit s \<Rightarrow> s | Field i \<Rightarrow> args ! i) template)"

section \<open>astronn_sigmoid_cross_entropy_with_logits\<close>

text \<open>
  \<^verbatim>\<open>
  try:
      labels.get_shape().merge_with(logits.get_shape())
  except ValueError:
      raise ValueError("logits and labels must have the same shape ({0!s} vs {0!s})"
                       .format(logits.get_shape(), labels.get_shape()))
  zeros = array_ops.zeros_like(logits, dtype=logits.dtype)
  cond = (logits >= zeros)
  relu_logits = array_ops.where(cond, logits, zeros)
  neg_abs_logits = array_ops.where(cond, -logits, logits)
  magic_cond = (labels == MAGIC_NUMBER)  # To deal with missing labels
  return array_ops.where(magic_cond, zeros,
      math_ops.add(relu_logits - logits * labels, math_ops.log1p(math_ops.exp(neg_abs_logits))))
  \<close>
  \<open>merge_with\<close> raises for two fully defined shapes that differ; the handler raises the
  module's own \<open>ValueError\<close>, formatted with the two shapes as arguments. After the
  check both tensors have one shape, and the operators act element by element. The
  comparison \<open>>=\<close> is the engine's elementwise one in every version.
\<close>

definition shape_error_template :: "piece list" where
  "shape_error_template =
     [Lit ''logits and labels must have the same shape ('', Field 0, Lit '' vs '',
      Field 0, Lit '')'']"

definition zeros_like :: "real list \<Rightarrow> real list" where
  "zeros_like xs = map (\<lambda>_. 0) xs"

definition relu_logits :: "real list \<Rightarrow> real list" where
  "relu_logits logits =
     select (map (\<lambda>x. x \<ge> 0) logits) logits (zeros_like logits)"

definition neg_abs_logits :: "real list \<Rightarrow> real list" where
  "neg_abs_logits logits =
     select (map (\<lambda>x. x \<ge> 0) logits) (map uminus logits) logits"

definition raw_loss :: "real list \<Rightarrow> real list \<Rightarrow> real list" where
  "raw_loss labels logits =
     zip_with (+) (zip_with (-) (relu_logits logits) (zip_with (*) logits labels))
       (map (\<lambda>x. ln (1 + exp x)) (neg_abs_logits logits))"

definition astronn_sigmoid_cross_entropy_with_logits ::
  "config \<Rightarrow> tensor \<Rightarrow> tensor \<Rightarrow> error + tensor" where
  "astronn_sigmoid_cross_entropy_with_logits cfg labels logits =
     (if shape labels \<noteq> shape logits
      then Inl (ValueError (format shape_error_template
                  [shape_str (shape logits), shape_str (shape labels)]))
      else
        let zeros = zeros_like (vals logits);
            magic_cond = tensor_eq cfg labels (MAGIC_NUMBER cfg)
        in Inr \<lparr>shape = shape logits,
                vals = tf_where magic_cond zeros (raw_loss (vals labels) (vals logits))\<rparr>)"

section \<open>Shapes, broadcasting and reductions\<close>

text \<open>
  Row-major addressing: \<open>unravel s k\<close> is the multi-index of the \<open>k\<close>-th element of
  a tensor of shape \<open>s\<close>, and \<open>ravel s m\<close> is the position of the multi-index \<open>m\<close>.
\<close>

fun unravel :: "nat list \<Rightarrow> nat \<Rightarrow> nat list" where
  "unravel [] k = []"
| "unravel (d # ds) k = (k div prod_list ds) # unravel ds (k mod prod_list ds)"

fun ravel :: "nat list \<Rightarrow> nat list \<Rightarrow> nat" where
  "ravel (d # ds) (i # is) = i * prod_list ds + ravel ds is"
| "ravel _ _ = 0"

definition and_then :: "error + 'a \<Rightarrow> ('a \<Rightarrow> error + 'b) \<Rightarrow> error + 'b" where
  "and_then m f = (case m of Inl e \<Rightarrow> Inl e | Inr x \<Rightarrow> f x)"

definition tmap :: "('a \<Rightarrow> 'b) \<Rightarrow> 'a tensor_of \<Rightarrow> 'b tensor_of" where
  "tmap f t = \<lparr>shape = shape t, vals = map f (vals t)\<rparr>"

text \<open>
  The binary operators of the engine (\<open>+\<close>, \<open>-\<close>, \<open>*\<close>, \<open>/\<close>) broadcast: the shapes are
  aligned at their last dimensions, and a dimension of size one, or a missing one, is
  repeated. Shapes that do not broadcast are an error.
\<close>

fun broadcast_rev :: "nat list \<Rightarrow> nat list \<Rightarrow> nat list option" where
  "broadcast_rev [] ys = Some ys"
| "broadcast_rev xs [] = Some xs"
| "broadcast_rev (x # xs) (y # ys) =
     (if x = y \<or> y = 1 then map_option ((#) x) (broadcast_rev xs ys)
      else if x = 1 then map_option ((#) y) (broadcast_rev xs ys)
      else None)"

definition broadcast_shape :: "nat list \<Rightarrow> nat list \<Rightarrow> nat list option" where
  "broadcast_shape a b = map_option rev (broadcast_rev (rev a) (rev b))"

fun bindex :: "nat list \<Rightarrow> nat list \<Rightarrow> nat list" where
  "bindex (d # ds) (i # is) = (if d = 1 then 0 else i) # bindex ds is"
| "bindex _ _ = []"

definition bget :: "'a tensor_of \<Rightarrow> nat list \<Rightarrow> 'a" where
  "bget t m =
     vals t ! ravel (shape t) (bindex (shape t) (drop (length m - length (shape t)) m))"

definition tf_binop ::
  "('a \<Rightarrow> 'b \<Rightarrow> 'c) \<Rightarrow> 'a tensor_of \<Rightarrow> 'b tensor_of \<Rightarrow> error + 'c tensor_of" where
  "tf_binop f a b =
     (case broadcast_shape (shape a) (shape b) of
        None \<Rightarrow> Inl (ValueError ''Dimensions must be equal'')
      | Some s \<Rightarrow>
          Inr \<lparr>shape = s,
               vals = map (\<lambda>k. f (bget a (unravel s k)) (bget b (unravel s k)))
                        [0..<prod_list s]\<rparr>)"

text \<open>
  A reduction along one axis; a negative axis counts from the last one, and an axis
  outside the rank is an error. With \<open>keepdims\<close> the reduced axis stays, with size one.
\<close>

definition norm_axis :: "nat \<Rightarrow> int \<Rightarrow> error + nat" where
  "norm_axis r ax =
     (if - int r \<le> ax \<and> ax < int r then Inr (nat (if ax < 0 then ax + int r else ax))
      else Inl (InvalidArgumentError ''Invalid reduction dimension''))"

definition reduce ::
  "('a list \<Rightarrow> 'b) \<Rightarrow> bool \<Rightarrow> 'a tensor_of \<Rightarrow> int \<Rightarrow> error + 'b tensor_of" where
  "reduce f keepdims t axis =
     and_then (norm_axis (length (shape t)) axis) (\<lambda>ax.
       let s = shape t; s' = take ax s @ drop (Suc ax) s
       in Inr \<lparr>shape = (if keepdims then s[ax := 1] else s'),
               vals = map (\<lambda>k. f (map (\<lambda>j. vals t !
                                   ravel s (take ax (unravel s' k) @ j # drop ax (unravel s' k)))
                                 [0..<s ! ax]))
                        [0..<prod_list s']\<rparr>)"

definition reduce_sum :: "tensor \<Rightarrow> int \<Rightarrow> bool \<Rightarrow> error + tensor" where
  "reduce_sum t axis keepdims = reduce sum_list keepdims t axis"

definition mean :: "real list \<Rightarrow> real" where
  "mean xs = sum_list xs / real (length xs)"

definition reduce_mean :: "tensor \<Rightarrow> int \<Rightarrow> error + tensor" where
  "reduce_mean t axis = reduce mean False t axis"

definition clip_by_value :: "tensor \<Rightarrow> real \<Rightarrow> real \<Rightarrow> tensor" where
  "clip_by_value t lo hi = tmap (\<lambda>x. max (min x hi) lo) t"

definition mask_magic :: "config \<Rightarrow> tensor \<Rightarrow> tensor" where
  "mask_magic cfg y_true =
     \<lparr>shape = shape y_true,
      vals = select (tf_equal y_true (MAGIC_NUMBER cfg)) (zeros_like (vals y_true)) (vals y_true)\<rparr>"

section \<open>categorical_cross_entropy\<close>

text \<open>
  The logit branch hands both tensors to the engine's
  \<open>softmax_cross_entropy_with_logits_v2\<close> (or, where that name is missing, to
  \<open>softmax_cross_entropy_with_logits\<close>, which computes the same values): for each row
  along the last axis, \<open>- sum (labels * log_softmax logits)\<close>. The primitive wants
  labels and logits of one shape and of rank at least one.
\<close>

definition row :: "nat \<Rightarrow> 'a list \<Rightarrow> nat \<Rightarrow> 'a list" where
  "row n xs i = take n (drop (i * n) xs)"

definition log_softmax :: "real list \<Rightarrow> real list" where
  "log_softmax xs = map (\<lambda>x. x - ln (sum_list (map exp xs))) xs"

definition softmax_cross_entropy_with_logits :: "tensor \<Rightarrow> tensor \<Rightarrow> error + tensor" where
  "softmax_cross_entropy_with_logits labels logits =
     (if shape labels \<noteq> shape logits
      then Inl (ValueError ''logits and labels must be same size'')
      else if shape logits = [] then Inl (InvalidArgumentError ''rank 0'')
      else
        let n = last (shape logits)
        in Inr \<lparr>shape = butlast (shape logits),
                vals = map (\<lambda>i. - sum_list (zip_with (*) (row n (vals labels) i)
                                              (log_softmax (row n (vals logits) i))))
                         [0..<prod_list (butlast (shape logits))]\<rparr>)"

text \<open>
  The probability branch:
  \<^verbatim>\<open>
  y_true = tf.where(tf.equal(y_true, MAGIC_NUMBER), tf.zeros_like(y_true), y_true)
  y_pred /= tf.reduce_sum(y_pred, len(y_pred.get_shape()) - 1, True)
  epsilon_tensor = tf.convert_to_tensor(epsilon(), y_pred.dtype.base_dtype)
  y_pred = tf.clip_by_value(y_pred, epsilon_tensor, 1. - epsilon_tensor)
  return - tf.reduce_sum(y_true * tf.log(y_pred), len(y_pred.get_shape()) - 1)
  \<close>
  \<open>cce_log_arg\<close> is the argument of \<open>tf.log\<close>, and \<open>cce_terms\<close> the tensor
  \<open>y_true * tf.log(y_pred)\<close> that the last line sums.
\<close>

definition normalize :: "tensor \<Rightarrow> error + tensor" where
  "normalize y_pred =
     and_then (reduce_sum y_pred (int (length (shape y_pred)) - 1) True)
       (\<lambda>row_sums. tf_binop (/) y_pred row_sums)"

definition cce_log_arg :: "config \<Rightarrow> tensor \<Rightarrow> error + tensor" where
  "cce_log_arg cfg y_pred =
     and_then (normalize y_pred)
       (\<lambda>y_pred. Inr (clip_by_value y_pred (epsilon cfg) (1 - epsilon cfg)))"

definition cce_terms :: "config \<Rightarrow> tensor \<Rightarrow> tensor \<Rightarrow> error + tensor" where
  "cce_terms cfg y_true y_pred =
     (let y_true = mask_magic cfg y_true
      in and_then (cce_log_arg cfg y_pred) (\<lambda>y_pred. tf_binop (*) y_true (tmap ln y_pred)))"

definition categorical_cross_entropy ::
  "config \<Rightarrow> tensor \<Rightarrow> tensor \<Rightarrow> bool \<Rightarrow> error + tensor" where
  "categorical_cross_entropy cfg y_true y_pred from_logits =
     (if \<not> from_logits then
        and_then (cce_terms cfg y_true y_pred) (\<lambda>terms.
        and_then (reduce_sum terms (int (length (shape y_pred)) - 1) False) (\<lambda>s.
        Inr (tmap uminus s)))
      else softmax_cross_entropy_with_logits y_true y_pred)"

text \<open>
  The probability branch in the words of the specification, for one row along the last
  axis: (a) labels equal to the sentinel become zero; (b) the predictions are divided by
  their sum; (c) they are clipped into \<open>[eps, 1 - eps]\<close>; (d) the result is
  \<open>- sum (y_true * log y_pred)\<close>.
\<close>

definition probability_mode_spec :: "real \<Rightarrow> real \<Rightarrow> real list \<Rightarrow> real list \<Rightarrow> real" where
  "probability_mode_spec sentinel eps y_true y_pred =
     (let y_true = map (\<lambda>y. if y = sentinel then 0 else y) y_true;
          y_pred = map (\<lambda>p. p / sum_list y_pred) y_pred;
          y_pred = map (\<lambda>p. max (min p (1 - eps)) eps) y_pred
      in - sum_list (zip_with (*) y_true (map ln y_pred)))"

section \<open>binary_cross_entropy\<close>

text \<open>
  \<^verbatim>\<open>
  if not from_logits:
      y_true = tf.where(tf.equal(y_true, MAGIC_NUMBER), tf.zeros_like(y_true), y_true)
      epsilon_tensor = tf.convert_to_tensor(epsilon(), y_pred.dtype.base_dtype)
      y_pred = tf.clip_by_value(y_pred, epsilon_tensor, 1 - epsilon_tensor)
      y_pred = tf.log(y_pred / (1 - y_pred))
  return tf.reduce_mean(astronn_sigmoid_cross_entropy_with_logits(labels=y_true, logits=y_pred),
                        axis=-1)
  \<close>
\<close>

definition binary_cross_entropy ::
  "config \<Rightarrow> tensor \<Rightarrow> tensor \<Rightarrow> bool \<Rightarrow> error + tensor" where
  "binary_cross_entropy cfg y_true y_pred from_logits =
     (let (y_true, y_pred) =
        (if \<not> from_logits then
           (mask_magic cfg y_true,
            tmap (\<lambda>p. ln (p / (1 - p))) (clip_by_value y_pred (epsilon cfg) (1 - epsilon cfg)))
         else (y_true, y_pred))
      in and_then (astronn_sigmoid_cross_entropy_with_logits cfg y_true y_pred)
           (\<lambda>l. reduce_mean l (- 1)))"

section \<open>bayesian_crossentropy_wrapper and gaussian_crossentropy\<close>

text \<open>
  Indexing and slicing along the second axis. \<open>tf.shape(t)[1]\<close> needs rank two or more.
  A single index \<open>t[:, k]\<close> must lie inside the axis, or the engine raises; the bounds of
  a range \<open>t[:, a:b]\<close> are clamped to the axis instead.
\<close>

definition shape_at :: "tensor \<Rightarrow> nat \<Rightarrow> error + nat" where
  "shape_at t i =
     (if i < length (shape t) then Inr (shape t ! i)
      else Inl (InvalidArgumentError
             (''slice index '' @ string_of_nat i @ '' of dimension 0 out of bounds'')))"

definition index_axis1 :: "tensor \<Rightarrow> nat \<Rightarrow> error + tensor" where
  "index_axis1 t k =
     (case shape t of
        d0 # d1 # ds \<Rightarrow>
          if k < d1 then
            Inr \<lparr>shape = d0 # ds,
                 vals = map (\<lambda>q. let m = unravel (d0 # ds) q
                                 in vals t ! ravel (shape t) (hd m # k # tl m))
                          [0..<prod_list (d0 # ds)]\<rparr>
          else Inl (InvalidArgumentError
                 (''slice index '' @ string_of_nat k @ '' of dimension 1 out of bounds''))
      | _ \<Rightarrow> Inl (ValueError ''Index out of range''))"

definition slice_axis1 :: "tensor \<Rightarrow> nat \<Rightarrow> nat \<Rightarrow> error + tensor" where
  "slice_axis1 t a b =
     (case shape t of
        d0 # d1 # ds \<Rightarrow>
          let lo = min a d1; w = min b d1 - lo
          in Inr \<lparr>shape = d0 # w # ds,
                  vals = map (\<lambda>q. let m = unravel (d0 # w # ds) q
                                  in vals t ! ravel (shape t) (hd m # (lo + hd (tl m)) # tl (tl m)))
                           [0..<prod_list (d0 # w # ds)]\<rparr>
      | _ \<Rightarrow> Inl (ValueError ''Index out of range''))"

text \<open>\<open>tf.transpose\<close> without a permutation reverses the axes.\<close>

definition tf_transpose :: "tensor \<Rightarrow> tensor" where
  "tf_transpose t =
     \<lparr>shape = rev (shape t),
      vals = map (\<lambda>k. vals t ! ravel (shape t) (rev (unravel (rev (shape t)) k)))
               [0..<prod_list (shape t)]\<rparr>"

definition elu :: "real \<Rightarrow> real" where
  "elu x = (if x > 0 then x else exp x - 1)"

text \<open>
  The object passed as \<open>dist\<close> is either a tensor or a distribution; only a distribution
  has a \<open>sample\<close> method. A distribution is modelled by its draws: \<open>draw t n\<close> is the
  tensor that \<open>sample(n)\<close> returns at the \<open>t\<close>-th evaluation.
\<close>

datatype py_object = TensorObj tensor | DistributionObj "nat \<Rightarrow> nat \<Rightarrow> tensor"

definition py_sample :: "py_object \<Rightarrow> nat \<Rightarrow> nat \<Rightarrow> error + tensor" where
  "py_sample obj t n =
     (case obj of
        TensorObj _ \<Rightarrow> Inl (AttributeError ''sample'')
      | DistributionObj draw \<Rightarrow> Inr (draw t n))"

text \<open>
  \<^verbatim>\<open>
  def map_fn(i):
      std_samples = tf.transpose(dist.sample(num_classes))
      distorted_loss = categorical_cross_entropy(pred + std_samples, true, from_logits=True)
      diff = undistorted_loss - distorted_loss
      return -tf.nn.elu(diff)
  \<close>
\<close>

definition gaussian_crossentropy ::
  "config \<Rightarrow> tensor \<Rightarrow> tensor \<Rightarrow> py_object \<Rightarrow> tensor \<Rightarrow> nat \<Rightarrow> nat \<Rightarrow> real \<Rightarrow> error + tensor" where
  "gaussian_crossentropy cfg true pred distn undistorted_loss num_classes t i =
     and_then (py_sample distn t num_classes) (\<lambda>sample.
     let std_samples = tf_transpose sample in
     and_then (tf_binop (+) pred std_samples) (\<lambda>distorted.
     and_then (categorical_cross_entropy cfg distorted true True) (\<lambda>distorted_loss.
     and_then (tf_binop (-) undistorted_loss distorted_loss) (\<lambda>diff.
     Inr (tmap (\<lambda>x. - elu x) diff)))))"

text \<open>
  \<open>tf.map_fn\<close> applies the function to the elements of a rank-one tensor in turn and
  stacks the results; the first failure is the failure of the whole. The counter of the
  evaluation is passed along: it tells the draws of a distribution apart.
\<close>

fun sequence :: "(error + 'a) list \<Rightarrow> error + 'a list" where
  "sequence [] = Inr []"
| "sequence (r # rs) = and_then r (\<lambda>x. and_then (sequence rs) (\<lambda>xs. Inr (x # xs)))"

definition stack :: "tensor list \<Rightarrow> tensor" where
  "stack ts =
     \<lparr>shape = length ts # (case ts of [] \<Rightarrow> [] | r # _ \<Rightarrow> shape r),
      vals = concat (map vals ts)\<rparr>"

definition tf_map_fn :: "(nat \<Rightarrow> real \<Rightarrow> error + tensor) \<Rightarrow> tensor \<Rightarrow> error + tensor" where
  "tf_map_fn fn elems =
     and_then (sequence (map (\<lambda>(t, x). fn t x) (zip [0..<length (vals elems)] (vals elems))))
       (\<lambda>rs. Inr (stack rs))"

definition tf_ones :: "nat \<Rightarrow> tensor" where
  "tf_ones n = \<lparr>shape = [n], vals = replicate n 1\<rparr>"

text \<open>
  \<open>tf.random_normal(shape, mean, stddev)\<close> scales standard normal draws by \<open>stddev\<close> and
  adds \<open>mean\<close>; the draws \<open>rnd\<close> come from the engine.
\<close>

definition random_normal :: "(nat list \<Rightarrow> real list) \<Rightarrow> tensor \<Rightarrow> tensor \<Rightarrow> tensor" where
  "random_normal rnd mean_t stddev =
     \<lparr>shape = shape stddev,
      vals = zip_with (+) (zip_with (*) (rnd (shape stddev)) (vals stddev)) (vals mean_t)\<rparr>"

text \<open>
  The steps of \<open>bayesian_crossentropy\<close>, in the order of the source:
  \<^verbatim>\<open>
  T = 25
  num_classes = tf.shape(y_pred)[1]
  std = tf.sqrt(y_pred)
  variance = y_pred[:, num_classes]
  variance_depressor = tf.exp(variance) - tf.ones_like(variance)
  pred = y_pred[:, 0:num_classes]
  undistorted_loss = categorical_cross_entropy(pred, y_true, from_logits=from_logits)
  iterable = tf.ones(T)
  norm_dist = tf.random_normal(shape=tf.shape(std), mean=tf.zeros_like(std), stddev=std)
  monte_carlo_results = tf.map_fn(
      gaussian_crossentropy(y_true, pred, norm_dist, undistorted_loss, num_classes), iterable)
  variance_loss = tf.reduce_mean(monte_carlo_results, axis=0) * undistorted_loss
  return variance_loss + undistorted_loss + variance_depressor
  \<close>
\<close>

text \<open>
  The call is modelled as a run over its local variables: each assignment that succeeds
  appends its binding, in the order of the source, and the first failure ends the run.
  The run returns the bindings made so far and the outcome of the call.
\<close>

datatype pyval = IntV nat | TensorV tensor | ObjV py_object

type_synonym env = "(string \<times> pyval) list"

definition bind_local ::
  "string \<Rightarrow> ('a \<Rightarrow> pyval) \<Rightarrow> error + 'a \<Rightarrow> env
     \<Rightarrow> ('a \<Rightarrow> env \<Rightarrow> env \<times> (error + tensor)) \<Rightarrow> env \<times> (error + tensor)" where
  "bind_local name to_val rhs env k =
     (case rhs of Inl e \<Rightarrow> (env, Inl e) | Inr v \<Rightarrow> k v (env @ [(name, to_val v)]))"

definition bc_std :: "tensor \<Rightarrow> tensor" where
  "bc_std y_pred = tmap sqrt y_pred"

definition bayesian_crossentropy_run ::
  "config \<Rightarrow> bool \<Rightarrow> (nat list \<Rightarrow> real list) \<Rightarrow> tensor \<Rightarrow> tensor
     \<Rightarrow> env \<times> (error + tensor)" where
  "bayesian_crossentropy_run cfg from_logits rnd y_true y_pred =
     bind_local ''T'' IntV (Inr 25) [] (\<lambda>T env.
     bind_local ''num_classes'' IntV (shape_at y_pred 1) env (\<lambda>num_classes env.
     bind_local ''std'' TensorV (Inr (bc_std y_pred)) env (\<lambda>std env.
     bind_local ''variance'' TensorV (index_axis1 y_pred num_classes) env (\<lambda>variance env.
     bind_local ''variance_depressor'' TensorV
       (tf_binop (-) (tmap exp variance) (tmap (\<lambda>_. 1) variance)) env (\<lambda>variance_depressor env.
     bind_local ''pred'' TensorV (slice_axis1 y_pred 0 num_classes) env (\<lambda>pred env.
     bind_local ''undistorted_loss'' TensorV
       (categorical_cross_entropy cfg pred y_true from_logits) env (\<lambda>undistorted_loss env.
     bind_local ''iterable'' TensorV (Inr (tf_ones T)) env (\<lambda>iterable env.
     bind_local ''norm_dist'' ObjV
       (Inr (TensorObj (random_normal rnd (tmap (\<lambda>_. 0) std) std))) env (\<lambda>norm_dist env.
     bind_local ''monte_carlo_results'' TensorV
       (tf_map_fn (gaussian_crossentropy cfg y_true pred norm_dist undistorted_loss num_classes)
          iterable) env (\<lambda>monte_carlo_results env.
     bind_local ''variance_loss'' TensorV
       (and_then (reduce_mean monte_carlo_results 0)
          (\<lambda>mc_mean. tf_binop (*) mc_mean undistorted_loss)) env (\<lambda>variance_loss env.
     (env, and_then (tf_binop (+) variance_loss undistorted_loss)
             (\<lambda>partial_sum. tf_binop (+) partial_sum variance_depressor)))))))))))))"

definition bayesian_crossentropy ::
  "config \<Rightarrow> bool \<Rightarrow> (nat list \<Rightarrow> real list) \<Rightarrow> tensor \<Rightarrow> tensor \<Rightarrow> error + tensor" where
  "bayesian_crossentropy cfg from_logits rnd y_true y_pred =
     snd (bayesian_crossentropy_run cfg from_logits rnd y_true y_pred)"

definition bayesian_crossentropy_wrapper ::
  "config \<Rightarrow> bool \<Rightarrow> (nat list \<Rightarrow> real list) \<Rightarrow> tensor \<Rightarrow> tensor \<Rightarrow> error + tensor" where
  "bayesian_crossentropy_wrapper cfg from_logits = bayesian_crossentropy cfg from_logits"

section \<open>The probability branch over machine numbers\<close>

text \<open>
  Two claims are about what exact arithmetic cannot show: overflow, and the values
  \<open>inf\<close> and \<open>NaN\<close>. For them the probability branch of \<open>categorical_cross_entropy\<close> is
  embedded a second time, over floating-point values. A value is a finite number, an
  infinity or \<open>NaN\<close>, and the operations follow IEEE 754 on the special values. What
  the engine does to an exact finite result, rounding it and overflowing to an infinity,
  is the parameter \<open>fround\<close>, and the order in which the engine sums the elements of a row
  is not fixed by the source either: the row sum is the parameter \<open>fsum\<close>. Signed zeros
  are not told apart.

  The comparisons are false on \<open>NaN\<close>; \<open>minimum\<close> and \<open>maximum\<close> return their first
  argument unless the second is smaller (larger), so \<open>clip_by_value\<close> passes a \<open>NaN\<close> on.
\<close>

datatype fval = Fin real | PInf | NInf | NaN

record fpu =
  fround :: "real \<Rightarrow> fval"
  fsum :: "fval list \<Rightarrow> fval"

fun fneg :: "fval \<Rightarrow> fval" where
  "fneg (Fin x) = Fin (- x)"
| "fneg PInf = NInf"
| "fneg NInf = PInf"
| "fneg NaN = NaN"

fun fadd :: "(real \<Rightarrow> fval) \<Rightarrow> fval \<Rightarrow> fval \<Rightarrow> fval" where
  "fadd r (Fin x) (Fin y) = r (x + y)"
| "fadd r NaN _ = NaN"
| "fadd r _ NaN = NaN"
| "fadd r PInf NInf = NaN"
| "fadd r NInf PInf = NaN"
| "fadd r PInf _ = PInf"
| "fadd r _ PInf = PInf"
| "fadd r NInf _ = NInf"
| "fadd r _ NInf = NInf"

fun fmul :: "(real \<Rightarrow> fval) \<Rightarrow> fval \<Rightarrow> fval \<Rightarrow> fval" where
  "fmul r (Fin x) (Fin y) = r (x * y)"
| "fmul r NaN _ = NaN"
| "fmul r _ NaN = NaN"
| "fmul r (Fin x) PInf = (if x = 0 then NaN else if 0 < x then PInf else NInf)"
| "fmul r (Fin x) NInf = (if x = 0 then NaN else if 0 < x then NInf else PInf)"
| "fmul r PInf (Fin y) = (if y = 0 then NaN else if 0 < y then PInf else NInf)"
| "fmul r NInf (Fin y) = (if y = 0 then NaN else if 0 < y then NInf else PInf)"
| "fmul r PInf PInf = PInf"
| "fmul r NInf NInf = PInf"
| "fmul r PInf NInf = NInf"
| "fmul r NInf PInf = NInf"

fun fdiv :: "(real \<Rightarrow> fval) \<Rightarrow> fval \<Rightarrow> fval \<Rightarrow> fval" where
  "fdiv r (Fin x) (Fin y) =
     (if y = 0 then (if x = 0 then NaN else if 0 < x then PInf else NInf) else r (x / y))"
| "fdiv r NaN _ = NaN"
| "fdiv r _ NaN = NaN"
| "fdiv r (Fin x) _ = Fin 0"
| "fdiv r PInf (Fin y) = (if 0 \<le> y then PInf else NInf)"
| "fdiv r NInf (Fin y) = (if 0 \<le> y then NInf else PInf)"
| "fdiv r _ _ = NaN"

fun flog :: "(real \<Rightarrow> fval) \<Rightarrow> fval \<Rightarrow> fval" where
  "flog r (Fin x) = (if 0 < x then r (ln x) else if x = 0 then NInf else NaN)"
| "flog r PInf = PInf"
| "flog r _ = NaN"

fun flt :: "fval \<Rightarrow> fval \<Rightarrow> bool" where
  "flt (Fin x) (Fin y) = (x < y)"
| "flt NaN _ = False"
| "flt _ NaN = False"
| "flt _ NInf = False"
| "flt NInf _ = True"
| "flt PInf _ = False"
| "flt _ PInf = True"

fun feq :: "fval \<Rightarrow> fval \<Rightarrow> bool" where
  "feq (Fin x) (Fin y) = (x = y)"
| "feq PInf PInf = True"
| "feq NInf NInf = True"
| "feq _ _ = False"

definition fmin :: "fval \<Rightarrow> fval \<Rightarrow> fval" where
  "fmin x y = (if flt y x then y else x)"

definition fmax :: "fval \<Rightarrow> fval \<Rightarrow> fval" where
  "fmax x y = (if flt x y then y else x)"


definition fp_clip_by_value :: "fval tensor_of \<Rightarrow> fval \<Rightarrow> fval \<Rightarrow> fval tensor_of" where
  "fp_clip_by_value t lo hi = tmap (\<lambda>x. fmax (fmin x hi) lo) t"

definition fp_mask_magic :: "config \<Rightarrow> fpu \<Rightarrow> fval tensor_of \<Rightarrow> fval tensor_of" where
  "fp_mask_magic cfg u y_true =
     \<lparr>shape = shape y_true,
      vals = select (map (\<lambda>y. feq y (fround u (MAGIC_NUMBER cfg))) (vals y_true))
               (map (\<lambda>_. Fin 0) (vals y_true)) (vals y_true)\<rparr>"

definition fp_normalize :: "fpu \<Rightarrow> fval tensor_of \<Rightarrow> error + fval tensor_of" where
  "fp_normalize u y_pred =
     and_then (reduce (fsum u) True y_pred (int (length (shape y_pred)) - 1))
       (\<lambda>row_sums. tf_binop (fdiv (fround u)) y_pred row_sums)"

definition fp_log_arg :: "config \<Rightarrow> fpu \<Rightarrow> fval tensor_of \<Rightarrow> error + fval tensor_of" where
  "fp_log_arg cfg u y_pred =
     and_then (fp_normalize u y_pred) (\<lambda>y_pred.
       let epsilon_tensor = fround u (epsilon cfg)
       in Inr (fp_clip_by_value y_pred epsilon_tensor
                 (fadd (fround u) (Fin 1) (fneg epsilon_tensor))))"

definition fp_terms ::
  "config \<Rightarrow> fpu \<Rightarrow> fval tensor_of \<Rightarrow> fval tensor_of \<Rightarrow> error + fval tensor_of" where
  "fp_terms cfg u y_true y_pred =
     (let y_true = fp_mask_magic cfg u y_true
      in and_then (fp_log_arg cfg u y_pred)
           (\<lambda>y_pred. tf_binop (fmul (fround u)) y_true (tmap (flog (fround u)) y_pred)))"

definition fp_probability_branch ::
  "config \<Rightarrow> fpu \<Rightarrow> fval tensor_of \<Rightarrow> fval tensor_of \<Rightarrow> error + fval tensor_of" where
  "fp_probability_branch cfg u y_true y_pred =
     and_then (fp_terms cfg u y_true y_pred) (\<lambda>terms.
     and_then (reduce (fsum u) False terms (int (length (shape y_pred)) - 1)) (\<lambda>s.
     Inr (tmap fneg s)))"

text \<open>
  A format for evaluating concrete inputs: the range of float32, whose largest finite
  number is \<open>(2 - 2^-23) * 2^127\<close>, and no rounding inside the range; rows are summed from
  left to right.
\<close>

definition max_float :: real where
  "max_float = (2 - 1 / 2 ^ 23) * 2 ^ 127"

definition overflow_only :: "real \<Rightarrow> fval" where
  "overflow_only x = (if max_float < x then PInf else if x < - max_float then NInf else Fin x)"

definition range_fpu :: fpu where
  "range_fpu = \<lparr>fround = overflow_only, fsum = foldl (fadd overflow_only) (Fin 0)\<rparr>"






text \<open>The branch for one row along the last axis.\<close>

definition fp_row :: "config \<Rightarrow> fpu \<Rightarrow> fval list \<Rightarrow> fval list \<Rightarrow> fval" where
  "fp_row cfg u y_true y_pred =
     (let eps = fround u (epsilon cfg);
          hi = fadd (fround u) (Fin 1) (fneg eps);
          y_true = map (\<lambda>y. if feq y (fround u (MAGIC_NUMBER cfg)) then Fin 0 else y) y_true;
          y_pred = map (\<lambda>p. fdiv (fround u) p (fsum u y_pred)) y_pred;
          y_pred = map (\<lambda>p. fmax (fmin p hi) eps) y_pred
      in fneg (fsum u (zip_with (fmul (fround u)) y_true (map (flog (fround u)) y_pred))))"

section \<open>Concrete configurations and inputs\<close>

text \<open>
  \<open>legacy\<close> is the configuration of a plain TensorFlow 1.x installation: the sentinel
  \<open>-9999\<close>, the Keras default \<open>epsilon() = 1e-7\<close>, and \<open>==\<close> on tensors as object identity.
  \<open>elementwise\<close> differs in the last point only. The scenario is the end-to-end example
  of the specification.
\<close>

definition legacy :: config where
  "legacy = \<lparr>MAGIC_NUMBER = - 9999, epsilon = 1 / 10000000, tensor_equality = False\<rparr>"

definition elementwise :: config where
  "elementwise = \<lparr>MAGIC_NUMBER = - 9999, epsilon = 1 / 10000000, tensor_equality = True\<rparr>"

definition scenario_labels :: tensor where
  "scenario_labels = \<lparr>shape = [2, 2], vals = [1, 0, - 9999, - 9999]\<rparr>"

definition scenario_logits :: tensor where
  "scenario_logits = \<lparr>shape = [2, 2], vals = [2, - 1, 5, 5]\<rparr>"

definition scenario_probs :: tensor where
  "scenario_probs = \<lparr>shape = [2, 2], vals = [1, 3, 2, 2]\<rparr>"

text \<open>
  A missing label with the prediction \<open>3/4\<close>; a prediction of three columns (two class
  scores and a variance) with its two-class label; and a second two-class tensor.
\<close>

definition missing_label :: tensor where
  "missing_label = \<lparr>shape = [1, 1], vals = [- 9999]\<rparr>"

definition three_quarters :: tensor where
  "three_quarters = \<lparr>shape = [1, 1], vals = [3 / 4]\<rparr>"

definition three_columns :: tensor where
  "three_columns = \<lparr>shape = [1, 3], vals = [1 / 2, 3 / 10, 1 / 5]\<rparr>"

definition two_classes :: tensor where
  "two_classes = \<lparr>shape = [1, 2], vals = [1, 0]\<rparr>"

definition one_three :: tensor where
  "one_three = \<lparr>shape = [1, 2], vals = [1, 3]\<rparr>"


text \<open>
  Inputs over machine numbers: the scenario's labels and an unnormalised prediction; labels
  near the end of the float32 range with a prediction whose first two entries fall below
  \<open>eps\<close> after the division; and the label \<open>[1, 0]\<close> with the prediction \<open>[2, 2]\<close>.
\<close>

definition fp_probs :: "fval tensor_of" where
  "fp_probs = \<lparr>shape = [2, 2], vals = [Fin 1, Fin 3, Fin 2, Fin 2]\<rparr>"

definition fp_labels :: "fval tensor_of" where
  "fp_labels = \<lparr>shape = [2, 2], vals = [Fin 1, Fin 0, Fin (- 9999), Fin (- 9999)]\<rparr>"



definition fp_one_zero :: "fval tensor_of" where
  "fp_one_zero = \<lparr>shape = [1, 2], vals = [Fin 1, Fin 0]\<rparr>"

definition fp_two_two :: "fval tensor_of" where
  "fp_two_two = \<lparr>shape = [1, 2], vals = [Fin 2, Fin 2]\<rparr>"



section \<open>Properties\<close>

lemma select_length:
  "length cs = length xs \<Longrightarrow> length ys = length xs \<Longrightarrow> length (select cs xs ys) = length xs"
  by (simp add: select_def)

lemma select_nth:
  "i < length xs \<Longrightarrow> length cs = length xs \<Longrightarrow> length ys = length xs \<Longrightarrow>
   select cs xs ys ! i = (if cs ! i then xs ! i else ys ! i)"
  by (simp add: select_def)

lemma zip_with_length: "length ys = length xs \<Longrightarrow> length (zip_with f xs ys) = length xs"
  by (simp add: zip_with_def)

lemma zip_with_nth:
  "i < length xs \<Longrightarrow> length ys = length xs \<Longrightarrow> zip_with f xs ys ! i = f (xs ! i) (ys ! i)"
  by (simp add: zip_with_def)

lemma relu_logits_length: "length (relu_logits xs) = length xs"
  by (simp add: relu_logits_def select_length zeros_like_def)

lemma neg_abs_logits_length: "length (neg_abs_logits xs) = length xs"
  by (simp add: neg_abs_logits_def select_length)



lemma raw_loss_length:
  "length labels = length logits \<Longrightarrow> length (raw_loss labels logits) = length logits"
  by (simp add: raw_loss_def zip_with_length relu_logits_length neg_abs_logits_length)


subsection \<open>Row-major addressing, broadcasting and reductions\<close>

lemma unravel_length: "length (unravel s k) = length s"
  by (induction s arbitrary: k) auto

lemma ravel_unravel: "k < prod_list s \<Longrightarrow> ravel s (unravel s k) = k"
proof (induction s arbitrary: k)
  case Nil then show ?case by simp
next
  case (Cons d ds)
  then have pos: "0 < prod_list ds" by (cases "prod_list ds = 0") auto
  then have "k mod prod_list ds < prod_list ds" by simp
  then show ?case using Cons.IH by simp
qed

lemma unravel_bound: "k < prod_list s \<Longrightarrow> i < length s \<Longrightarrow> unravel s k ! i < s ! i"
proof (induction s arbitrary: k i)
  case Nil then show ?case by simp
next
  case (Cons d ds)
  then have pos: "0 < prod_list ds" by (cases "prod_list ds = 0") auto
  show ?case
  proof (cases i)
    case 0
    have "k div prod_list ds < d" using Cons.prems(1) pos
      by (simp add: less_mult_imp_div_less mult.commute)
    then show ?thesis using 0 by simp
  next
    case (Suc j)
    then show ?thesis using Cons pos by simp
  qed
qed

lemma unravel_snoc:
  "k < prod_list bs * n \<Longrightarrow> unravel (bs @ [n]) k = unravel bs (k div n) @ [k mod n]"
proof (induction bs arbitrary: k)
  case Nil then show ?case by simp
next
  case (Cons d ds)
  define P where "P = prod_list ds"
  define r where "r = k mod (P * n)"
  have pos: "0 < P * n" using Cons.prems unfolding P_def by (cases "prod_list ds * n = 0") auto
  then have npos: "0 < n" by simp
  have rlt: "r < prod_list ds * n" using pos unfolding r_def P_def by simp
  have r_eq: "r = n * (k div n mod P) + k mod n"
    unfolding r_def by (simp add: mult.commute[of P n] mod_mult2_eq)
  have rdiv: "r div n = k div n mod P" using npos unfolding r_eq by simp
  have rmod: "r mod n = k mod n" unfolding r_eq by simp
  have kdiv: "k div (P * n) = k div n div P"
    by (simp add: mult.commute[of P n] div_mult2_eq)
  have "unravel ((d # ds) @ [n]) k = (k div (P * n)) # unravel (ds @ [n]) r"
    by (simp add: P_def r_def)
  also have "\<dots> = (k div n div P) # (unravel ds (k div n mod P) @ [k mod n])"
    using Cons.IH[OF rlt] by (simp add: kdiv rdiv rmod)
  also have "\<dots> = unravel (d # ds) (k div n) @ [k mod n]"
    by (simp add: P_def)
  finally show ?case .
qed

lemma ravel_snoc: "length m = length bs \<Longrightarrow> ravel (bs @ [n]) (m @ [j]) = ravel bs m * n + j"
proof (induction bs m rule: ravel.induct)
  case (1 d ds i "is")
  then show ?case by (simp add: algebra_simps)
qed auto


lemma and_then_Inr [simp]: "and_then (Inr x) f = f x"
  by (simp add: and_then_def)

lemma and_then_Inl [simp]: "and_then (Inl e) f = Inl e"
  by (simp add: and_then_def)

lemma broadcast_rev_same: "broadcast_rev xs xs = Some xs"
  by (induction xs) auto

lemma broadcast_shape_same: "broadcast_shape s s = Some s"
  by (simp add: broadcast_shape_def broadcast_rev_same)

lemma broadcast_shape_keepdims: "broadcast_shape (bs @ [n]) (bs @ [1]) = Some (bs @ [n])"
  by (simp add: broadcast_shape_def broadcast_rev_same)

lemma bindex_unravel: "k < prod_list s \<Longrightarrow> bindex s (unravel s k) = unravel s k"
proof (induction s arbitrary: k)
  case Nil then show ?case by simp
next
  case (Cons d ds)
  then have pos: "0 < prod_list ds" by (cases "prod_list ds = 0") auto
  then have "k mod prod_list ds < prod_list ds" by simp
  then show ?case using Cons by auto
qed

lemma bindex_snoc:
  "length m = length bs \<Longrightarrow>
   bindex (bs @ [d]) (m @ [j]) = bindex bs m @ [if d = 1 then 0 else j]"
  by (induction bs m rule: bindex.induct) auto

lemma bget_same:
  "shape t = s \<Longrightarrow> k < prod_list s \<Longrightarrow> bget t (unravel s k) = vals t ! k"
  unfolding bget_def
  by (simp only: unravel_length diff_self_eq_0 drop_0 bindex_unravel ravel_unravel)

lemma map_upt_zip_with:
  assumes "length xs = n" and "length ys = n"
  shows "map (\<lambda>k. f (xs ! k) (ys ! k)) [0..<n] = zip_with f xs ys"
  by (rule nth_equalityI) (simp_all add: assms zip_with_def)

lemma tf_binop_same_shape:
  assumes "shape a = shape b" and "wf_tensor a" and "wf_tensor b"
  shows "tf_binop f a b = Inr \<lparr>shape = shape a, vals = zip_with f (vals a) (vals b)\<rparr>"
proof -
  have "map (\<lambda>k. f (bget a (unravel (shape a) k)) (bget b (unravel (shape a) k)))
          [0..<prod_list (shape a)]
        = map (\<lambda>k. f (vals a ! k) (vals b ! k)) [0..<prod_list (shape a)]"
    using assms(1) by (intro map_cong refl) (simp add: bget_same)
  also have "\<dots> = zip_with f (vals a) (vals b)"
    using assms by (intro map_upt_zip_with) (simp_all add: wf_tensor_def)
  finally show ?thesis
    using assms(1) by (simp add: tf_binop_def broadcast_shape_same)
qed

lemma row_nth_map:
  assumes "k * n + n \<le> length xs"
  shows "map (\<lambda>j. xs ! (k * n + j)) [0..<n] = row n xs k"
  by (rule nth_equalityI) (use assms in \<open>simp_all add: row_def\<close>)

lemma row_bound:
  assumes "k < p" shows "k * n + n \<le> p * (n::nat)"
proof -
  have "Suc k \<le> p" using assms by simp
  then have "Suc k * n \<le> p * n" by (rule mult_le_mono1)
  then show ?thesis by simp
qed

lemma reduce_last:
  assumes s: "shape t = bs @ [n]" and wf: "wf_tensor t"
    and ax: "axis = int (length bs) \<or> axis = - 1"
  shows "reduce f keepdims t axis =
           Inr \<lparr>shape = (if keepdims then bs @ [1] else bs),
                vals = map (\<lambda>k. f (row n (vals t) k)) [0..<prod_list bs]\<rparr>"
proof -
  have na: "norm_axis (length (bs @ [n])) axis = Inr (length bs)"
    using ax by (auto simp: norm_axis_def)
  have len: "length (vals t) = prod_list bs * n"
    using wf by (simp add: wf_tensor_def s)
  have main: "map (\<lambda>k. f (map (\<lambda>j. vals t ! ravel (bs @ [n]) (unravel bs k @ [j])) [0..<n]))
          [0..<prod_list bs]
        = map (\<lambda>k. f (row n (vals t) k)) [0..<prod_list bs]"
  proof (intro map_cong refl)
    fix k assume "k \<in> set [0..<prod_list bs]"
    then have k: "k < prod_list bs" by simp
    have "map (\<lambda>j. vals t ! ravel (bs @ [n]) (unravel bs k @ [j])) [0..<n]
          = map (\<lambda>j. vals t ! (k * n + j)) [0..<n]"
      by (simp add: ravel_snoc unravel_length ravel_unravel k)
    also have "\<dots> = row n (vals t) k"
      using row_bound[OF k, of n] by (intro row_nth_map) (simp add: len)
    finally show "f (map (\<lambda>j. vals t ! ravel (bs @ [n]) (unravel bs k @ [j])) [0..<n])
                  = f (row n (vals t) k)" by simp
  qed
  show ?thesis
    unfolding reduce_def s na and_then_Inr Let_def
    by (simp add: unravel_length main)
qed

lemma div_bound: "k < p * n \<Longrightarrow> k div n < (p::nat)"
  by (simp add: less_mult_imp_div_less)

lemma bget_keepdims:
  assumes sh: "shape u = bs @ [1]" and k: "k < prod_list bs * n"
  shows "bget u (unravel (bs @ [n]) k) = vals u ! (k div n)"
proof -
  have kd: "k div n < prod_list bs" using k by (rule div_bound)
  show ?thesis
    unfolding bget_def sh unravel_snoc[OF k]
    by (simp add: unravel_length bindex_snoc bindex_unravel[OF kd] ravel_snoc ravel_unravel kd)
qed

lemma normalize_last:
  assumes s: "shape t = bs @ [n]" and wf: "wf_tensor t"
  shows "normalize t =
           Inr \<lparr>shape = bs @ [n],
                vals = map (\<lambda>k. vals t ! k / sum_list (row n (vals t) (k div n)))
                         [0..<prod_list bs * n]\<rparr>"
proof -
  let ?u = "\<lparr>shape = bs @ [1],
             vals = map (\<lambda>k. sum_list (row n (vals t) k)) [0..<prod_list bs]\<rparr>"
  have red: "reduce_sum t (int (length (shape t)) - 1) True = Inr ?u"
    unfolding reduce_sum_def by (subst reduce_last[OF s wf]) (simp_all add: s)
  have main: "map (\<lambda>k. bget t (unravel (bs @ [n]) k) / bget ?u (unravel (bs @ [n]) k))
          [0..<prod_list bs * n]
        = map (\<lambda>k. vals t ! k / sum_list (row n (vals t) (k div n))) [0..<prod_list bs * n]"
  proof (intro map_cong refl)
    fix k assume "k \<in> set [0..<prod_list bs * n]"
    then have k: "k < prod_list bs * n" by simp
    have 1: "bget t (unravel (bs @ [n]) k) = vals t ! k"
      by (rule bget_same[OF s]) (simp add: k)
    have 2: "bget ?u (unravel (bs @ [n]) k) = sum_list (row n (vals t) (k div n))"
      by (subst bget_keepdims[OF _ k]) (simp_all add: div_bound[OF k])
    show "bget t (unravel (bs @ [n]) k) / bget ?u (unravel (bs @ [n]) k)
          = vals t ! k / sum_list (row n (vals t) (k div n))"
      by (simp only: 1 2)
  qed
  have bs: "broadcast_shape (shape t) (shape ?u) = Some (bs @ [n])"
    using broadcast_shape_keepdims[of bs n] by (simp add: s)
  have pl: "prod_list (bs @ [n]) = prod_list bs * n" by simp
  show ?thesis
    unfolding normalize_def red and_then_Inr tf_binop_def bs option.case pl main ..
qed

lemma row_length: "i * n + n \<le> length xs \<Longrightarrow> length (row n xs i) = n"
  by (simp add: row_def)

lemma row_nth: "j < n \<Longrightarrow> i * n + n \<le> length xs \<Longrightarrow> row n xs i ! j = xs ! (i * n + j)"
  by (simp add: row_def)

lemma row_map: "row n (map f xs) i = map f (row n xs i)"
  by (simp add: row_def take_map drop_map)

lemma row_zip_with: "row n (zip_with f xs ys) i = zip_with f (row n xs i) (row n ys i)"
  by (simp add: row_def zip_with_def take_map drop_map take_zip drop_zip)

lemma div_row: "j < n \<Longrightarrow> (i * n + j) div n = (i::nat)"
  by simp

lemma row_normalized:
  assumes i: "i < p" and len: "length xs = p * n"
  shows "row n (map (\<lambda>k. h (xs ! k) (sum_list (row n xs (k div n)))) [0..<p * n]) i
         = map (\<lambda>x. h x (sum_list (row n xs i))) (row n xs i)"
proof (rule nth_equalityI)
  have b: "i * n + n \<le> p * n" using i by (rule row_bound)
  show "length (row n (map (\<lambda>k. h (xs ! k) (sum_list (row n xs (k div n)))) [0..<p * n]) i)
        = length (map (\<lambda>x. h x (sum_list (row n xs i))) (row n xs i))"
    using b by (simp add: row_length len)
  fix j assume "j < length (row n (map (\<lambda>k. h (xs ! k) (sum_list (row n xs (k div n)))) [0..<p * n]) i)"
  then have j: "j < n" using b by (simp add: row_length)
  have lt: "i * n + j < p * n" using b j by simp
  show "row n (map (\<lambda>k. h (xs ! k) (sum_list (row n xs (k div n)))) [0..<p * n]) i ! j
        = map (\<lambda>x. h x (sum_list (row n xs i))) (row n xs i) ! j"
    using b j lt by (simp add: row_nth row_length len div_row)
qed

lemma mask_vals:
  "select (map P xs) (zeros_like xs) xs = map (\<lambda>y. if P y then 0 else y) xs"
  by (induction xs) (simp_all add: select_def zeros_like_def)

lemma mask_magic_eq:
  "mask_magic cfg y = tmap (\<lambda>y. if y = MAGIC_NUMBER cfg then 0 else y) y"
  by (simp add: mask_magic_def tf_equal_def tmap_def mask_vals)

lemma wf_tmap: "wf_tensor (tmap f t) = wf_tensor t"
  by (simp add: wf_tensor_def tmap_def)

lemma shape_tmap: "shape (tmap f t) = shape t"
  by (simp add: tmap_def)

lemma vals_tmap: "vals (tmap f t) = map f (vals t)"
  by (simp add: tmap_def)

subsection \<open>The probability branch, row by row\<close>

lemma cce_log_arg_last:
  assumes s: "shape y_pred = bs @ [n]" and wf: "wf_tensor y_pred"
  shows "cce_log_arg cfg y_pred =
           Inr \<lparr>shape = bs @ [n],
                vals = map (\<lambda>k. max (min (vals y_pred ! k / sum_list (row n (vals y_pred) (k div n)))
                                        (1 - epsilon cfg)) (epsilon cfg))
                         [0..<prod_list bs * n]\<rparr>"
  unfolding cce_log_arg_def normalize_last[OF s wf] and_then_Inr
  by (simp add: clip_by_value_def tmap_def)

lemma cce_terms_last:
  assumes sp: "shape y_pred = bs @ [n]" and st: "shape y_true = bs @ [n]"
    and wfp: "wf_tensor y_pred" and wft: "wf_tensor y_true"
  shows "cce_terms cfg y_true y_pred =
           Inr \<lparr>shape = bs @ [n],
                vals = zip_with (*)
                         (map (\<lambda>y. if y = MAGIC_NUMBER cfg then 0 else y) (vals y_true))
                         (map (\<lambda>k. ln (max (min (vals y_pred ! k / sum_list (row n (vals y_pred) (k div n)))
                                        (1 - epsilon cfg)) (epsilon cfg)))
                            [0..<prod_list bs * n])\<rparr>"
  unfolding cce_terms_def Let_def cce_log_arg_last[OF sp wfp] and_then_Inr
  by (subst tf_binop_same_shape)
     (use st wft in \<open>simp_all add: mask_magic_eq wf_tmap shape_tmap vals_tmap wf_tensor_def o_def\<close>)

lemma categorical_cross_entropy_last:
  assumes sp: "shape y_pred = bs @ [n]" and st: "shape y_true = bs @ [n]"
    and wfp: "wf_tensor y_pred" and wft: "wf_tensor y_true"
  shows "categorical_cross_entropy cfg y_true y_pred False =
           Inr \<lparr>shape = bs,
                vals = map (\<lambda>i. probability_mode_spec (MAGIC_NUMBER cfg) (epsilon cfg)
                                   (row n (vals y_true) i) (row n (vals y_pred) i))
                         [0..<prod_list bs]\<rparr>"
proof -
  let ?m = "map (\<lambda>y. if y = MAGIC_NUMBER cfg then 0 else y) (vals y_true)"
  let ?h = "\<lambda>x s. ln (max (min (x / s) (1 - epsilon cfg)) (epsilon cfg))"
  let ?a = "map (\<lambda>k. ?h (vals y_pred ! k) (sum_list (row n (vals y_pred) (k div n))))
              [0..<prod_list bs * n]"
  let ?terms = "\<lparr>shape = bs @ [n], vals = zip_with (*) ?m ?a\<rparr>"
  let ?sums = "\<lparr>shape = bs, vals = map (\<lambda>i. sum_list (row n (zip_with (*) ?m ?a) i)) [0..<prod_list bs]\<rparr>"
  have lenp: "length (vals y_pred) = prod_list bs * n"
    using wfp by (simp add: wf_tensor_def sp)
  have lent: "length (vals y_true) = prod_list bs * n"
    using wft by (simp add: wf_tensor_def st)
  have terms: "cce_terms cfg y_true y_pred = Inr ?terms"
    by (rule cce_terms_last[OF sp st wfp wft])
  have wf_terms: "wf_tensor ?terms"
    by (simp add: wf_tensor_def zip_with_def lent)
  have red: "reduce_sum ?terms (int (length (shape y_pred)) - 1) False = Inr ?sums"
    unfolding reduce_sum_def
    by (subst reduce_last[where bs = bs and n = n, OF _ wf_terms]) (simp_all add: sp)
  have neg: "tmap uminus ?sums =
        \<lparr>shape = bs, vals = map (\<lambda>i. - sum_list (row n (zip_with (*) ?m ?a) i)) [0..<prod_list bs]\<rparr>"
    by (simp add: tmap_def)
  have rows: "map (\<lambda>i. - sum_list (row n (zip_with (*) ?m ?a) i)) [0..<prod_list bs]
        = map (\<lambda>i. probability_mode_spec (MAGIC_NUMBER cfg) (epsilon cfg)
                                   (row n (vals y_true) i) (row n (vals y_pred) i))
                         [0..<prod_list bs]"
  proof (intro map_cong refl)
    fix i assume "i \<in> set [0..<prod_list bs]"
    then have i: "i < prod_list bs" by simp
    have ra: "row n ?a i = map (\<lambda>x. ?h x (sum_list (row n (vals y_pred) i))) (row n (vals y_pred) i)"
      by (rule row_normalized[OF i lenp])
    show "- sum_list (row n (zip_with (*) ?m ?a) i)
          = probability_mode_spec (MAGIC_NUMBER cfg) (epsilon cfg)
                                   (row n (vals y_true) i) (row n (vals y_pred) i)"
      unfolding row_zip_with ra
      unfolding row_map probability_mode_spec_def Let_def
      by (simp add: map_map o_def)
  qed
  show ?thesis
    unfolding categorical_cross_entropy_def terms and_then_Inr red neg rows
    by simp
qed

section \<open>The masked sigmoid cross-entropy\<close>





lemma raw_loss_scenario:
  "raw_loss [1, 0, - 9999, - 9999] [2, - 1, 5, 5]
   = [ln (1 + exp (- 2)), ln (1 + exp (- 1)), 50000 + ln (1 + exp (- 5)), 50000 + ln (1 + exp (- 5))]"
  by (simp add: raw_loss_def zip_with_def relu_logits_def neg_abs_logits_def select_def zeros_like_def)

lemma sigmoid_masks_with_tensor_equality:
  assumes "tensor_equality cfg" and "shape labels = shape logits"
    and "wf_tensor labels" and "wf_tensor logits"
    and "i < length (vals logits)" and "vals labels ! i = MAGIC_NUMBER cfg"
  shows "\<exists>t. astronn_sigmoid_cross_entropy_with_logits cfg labels logits = Inr t \<and> vals t ! i = 0"
proof -
  have len: "length (vals labels) = length (vals logits)"
    using assms(2-4) by (simp add: wf_tensor_def)
  show ?thesis
    using assms(1,2,5,6) len
    by (simp add: astronn_sigmoid_cross_entropy_with_logits_def tensor_eq_def tf_equal_def
        select_nth raw_loss_length zeros_like_def)
qed

lemma cce_terms_sentinel_zero:
  assumes sp: "shape y_pred = bs @ [n]" and st: "shape y_true = bs @ [n]"
    and wfp: "wf_tensor y_pred" and wft: "wf_tensor y_true"
    and k: "k < length (vals y_true)" and m: "vals y_true ! k = MAGIC_NUMBER cfg"
  shows "\<exists>t. cce_terms cfg y_true y_pred = Inr t \<and> shape t = shape y_true \<and> vals t ! k = 0"
proof -
  have lent: "length (vals y_true) = prod_list bs * n"
    using wft by (simp add: wf_tensor_def st)
  show ?thesis
    unfolding cce_terms_last[OF sp st wfp wft]
    using k m by (simp add: st zip_with_nth lent)
qed

text \<open>
  Claim C1 says that a position whose label is the sentinel contributes exactly zero, in
  the masked sigmoid cross-entropy and in the probability branch of the categorical
  cross-entropy, and that the second row of the scenario is \<open>[0, 0]\<close>. The categorical
  branch compares with \<open>tf.equal\<close> and does so (lemma \<open>cce_terms_sentinel_zero\<close> below).
  The sigmoid function compares with \<open>labels == MAGIC_NUMBER\<close>: under TensorFlow 1.x this
  is the Python value \<open>False\<close>, \<open>where\<close> returns the unmasked loss, and the second row of
  the scenario is \<open>5 - 5 * (-9999) + log(1 + exp(-5))\<close> twice.
\<close>

theorem sigmoid_sentinel_not_masked:
  "astronn_sigmoid_cross_entropy_with_logits legacy scenario_labels scenario_logits
     = Inr \<lparr>shape = [2, 2],
            vals = [ln (1 + exp (- 2)), ln (1 + exp (- 1)),
                    50000 + ln (1 + exp (- 5)), 50000 + ln (1 + exp (- 5))]\<rparr>
   \<and> 50000 + ln (1 + exp (- 5)) \<noteq> (0::real)"
proof -
  have "0 < ln (1 + exp (- 5 :: real))" by (rule ln_gt_zero) simp
  then have "50000 + ln (1 + exp (- 5)) \<noteq> (0::real)" by linarith
  then show ?thesis
    by (simp add: astronn_sigmoid_cross_entropy_with_logits_def legacy_def scenario_labels_def
        scenario_logits_def tensor_eq_def raw_loss_scenario)
qed

text \<open>
  Claim C9 says that the shape error carries both shapes. The template names field
  \<open>0\<close> twice, so the message prints the shape of the logits twice and never the shape
  of the labels: for logits of shape \<open>(2, 3)\<close> and labels of shape \<open>(2, 2)\<close> it reads
  \<open>((2, 3) vs (2, 3))\<close>. The error itself is raised before anything is computed.
\<close>

theorem shape_error_repeats_logits_shape:
  "astronn_sigmoid_cross_entropy_with_logits cfg
     \<lparr>shape = [2, 2], vals = [1, 0, 0, 1]\<rparr> \<lparr>shape = [2, 3], vals = [2, - 1, 0, 5, 5, 0]\<rparr>
   = Inl (ValueError ''logits and labels must have the same shape ((2, 3) vs (2, 3))'')"
  by (simp add: astronn_sigmoid_cross_entropy_with_logits_def format_def shape_error_template_def
      shape_str_def string_of_nat.simps)

section \<open>The probability branch of the categorical cross-entropy\<close>

text \<open>
  Claim C5. With \<open>from_logits = False\<close>, for \<open>y_true\<close> and \<open>y_pred\<close> of one shape of
  rank at least one, the function returns, for each row along the last axis, the value
  of the four steps of the specification in their order: sentinel labels set to zero,
  predictions divided by their row sum (always), clipped into \<open>[eps, 1 - eps]\<close> with the
  backend's \<open>eps\<close>, and \<open>- sum (y_true * log y_pred)\<close>. The last axis is reduced away:
  the result has one dimension less.
\<close>

theorem probability_mode_steps:
  assumes "shape y_pred = bs @ [n]" and "shape y_true = shape y_pred"
    and "wf_tensor y_pred" and "wf_tensor y_true"
  shows "\<exists>l. categorical_cross_entropy cfg y_true y_pred False = Inr l
           \<and> shape l = bs
           \<and> length (shape l) + 1 = length (shape y_pred)
           \<and> vals l = map (\<lambda>i. probability_mode_spec (MAGIC_NUMBER cfg) (epsilon cfg)
                                   (row n (vals y_true) i) (row n (vals y_pred) i))
                          [0..<prod_list bs]"
  using assms by (simp add: categorical_cross_entropy_last)

theorem probability_mode_steps_witness:
  "shape scenario_probs = [2] @ [2] \<and> shape scenario_labels = shape scenario_probs
   \<and> wf_tensor scenario_probs \<and> wf_tensor scenario_labels
   \<and> categorical_cross_entropy legacy scenario_labels scenario_probs False
       = Inr \<lparr>shape = [2], vals = [- ln (1 / 4), 0]\<rparr>"
proof -
  have h: "shape scenario_probs = [2] @ [2]" "shape scenario_labels = shape scenario_probs"
    "wf_tensor scenario_probs" "wf_tensor scenario_labels"
    by (simp_all add: scenario_probs_def scenario_labels_def wf_tensor_def)
  have u: "[0..<prod_list [2::nat]] = [0, 1]"
    by (simp add: upt_rec)
  obtain l where l: "categorical_cross_entropy legacy scenario_labels scenario_probs False = Inr l"
    "shape l = [2]"
    "vals l = map (\<lambda>i. probability_mode_spec (MAGIC_NUMBER legacy) (epsilon legacy)
                       (row 2 (vals scenario_labels) i) (row 2 (vals scenario_probs) i))
                [0..<prod_list [2]]"
    using probability_mode_steps[OF h, of legacy] by blast
  have "vals l = [- ln (1 / 4), 0]"
    unfolding l(3) u
    by (simp add: probability_mode_spec_def row_def zip_with_def legacy_def
        scenario_labels_def scenario_probs_def)
  then have "l = \<lparr>shape = [2], vals = [- ln (1 / 4), 0]\<rparr>"
    using l(2) by (cases l) simp
  then show ?thesis using h l(1) by simp
qed

lemma normalize_scale:
  assumes wf: "wf_tensor y_pred" and k: "k \<noteq> 0"
  shows "normalize (tmap ((*) k) y_pred) = normalize y_pred"
proof (cases "shape y_pred" rule: rev_cases)
  case Nil
  then show ?thesis
    by (simp add: normalize_def reduce_sum_def reduce_def norm_axis_def tmap_def)
next
  case (snoc bs n)
  have s': "shape (tmap ((*) k) y_pred) = bs @ [n]" by (simp add: shape_tmap snoc)
  have wf': "wf_tensor (tmap ((*) k) y_pred)" by (simp add: wf_tmap wf)
  have len: "length (vals y_pred) = prod_list bs * n"
    using wf by (simp add: wf_tensor_def snoc)
  have "map (\<lambda>j. vals (tmap ((*) k) y_pred) ! j
                  / sum_list (row n (vals (tmap ((*) k) y_pred)) (j div n))) [0..<prod_list bs * n]
        = map (\<lambda>j. vals y_pred ! j / sum_list (row n (vals y_pred) (j div n))) [0..<prod_list bs * n]"
  proof (intro map_cong refl)
    fix j assume "j \<in> set [0..<prod_list bs * n]"
    then have j: "j < length (vals y_pred)" by (simp add: len)
    show "vals (tmap ((*) k) y_pred) ! j / sum_list (row n (vals (tmap ((*) k) y_pred)) (j div n))
          = vals y_pred ! j / sum_list (row n (vals y_pred) (j div n))"
      using j k by (simp add: vals_tmap row_map sum_list_const_mult)
  qed
  then show ?thesis
    unfolding normalize_last[OF s' wf'] normalize_last[OF snoc wf] by simp
qed

lemma exact_scale_invariant:
  assumes "wf_tensor y_pred" and "0 < k"
  shows "categorical_cross_entropy cfg y_true (tmap ((*) k) y_pred) False
         = categorical_cross_entropy cfg y_true y_pred False"
proof -
  have "normalize (tmap ((*) k) y_pred) = normalize y_pred"
    using assms by (intro normalize_scale) simp_all
  then show ?thesis
    by (simp add: categorical_cross_entropy_def cce_terms_def cce_log_arg_def shape_tmap)
qed

section \<open>The probability branch over machine numbers: scaling and the logarithm\<close>

lemma normalize_with_last:
  assumes s: "shape t = bs @ [n]" and wf: "wf_tensor t"
  shows "and_then (reduce sm True t (int (length (shape t)) - 1)) (\<lambda>row_sums. tf_binop dv t row_sums)
         = Inr \<lparr>shape = bs @ [n],
                vals = map (\<lambda>k. dv (vals t ! k) (sm (row n (vals t) (k div n))))
                         [0..<prod_list bs * n]\<rparr>"
proof -
  let ?u = "\<lparr>shape = bs @ [1],
             vals = map (\<lambda>k. sm (row n (vals t) k)) [0..<prod_list bs]\<rparr>"
  have red: "reduce sm True t (int (length (shape t)) - 1) = Inr ?u"
    by (subst reduce_last[OF s wf]) (simp_all add: s)
  have main: "map (\<lambda>k. dv (bget t (unravel (bs @ [n]) k)) (bget ?u (unravel (bs @ [n]) k)))
          [0..<prod_list bs * n]
        = map (\<lambda>k. dv (vals t ! k) (sm (row n (vals t) (k div n)))) [0..<prod_list bs * n]"
  proof (intro map_cong refl)
    fix k assume "k \<in> set [0..<prod_list bs * n]"
    then have k: "k < prod_list bs * n" by simp
    have 1: "bget t (unravel (bs @ [n]) k) = vals t ! k"
      by (rule bget_same[OF s]) (simp add: k)
    have 2: "bget ?u (unravel (bs @ [n]) k) = sm (row n (vals t) (k div n))"
      by (subst bget_keepdims[OF _ k]) (simp_all add: div_bound[OF k])
    show "dv (bget t (unravel (bs @ [n]) k)) (bget ?u (unravel (bs @ [n]) k))
          = dv (vals t ! k) (sm (row n (vals t) (k div n)))"
      by (simp only: 1 2)
  qed
  have bs: "broadcast_shape (shape t) (shape ?u) = Some (bs @ [n])"
    using broadcast_shape_keepdims[of bs n] by (simp add: s)
  have pl: "prod_list (bs @ [n]) = prod_list bs * n" by simp
  show ?thesis
    unfolding red and_then_Inr tf_binop_def bs option.case pl main ..
qed

lemma fp_normalize_last:
  assumes s: "shape t = bs @ [n]" and wf: "wf_tensor t"
  shows "fp_normalize u t
         = Inr \<lparr>shape = bs @ [n],
                vals = map (\<lambda>k. fdiv (fround u) (vals t ! k) (fsum u (row n (vals t) (k div n))))
                         [0..<prod_list bs * n]\<rparr>"
  unfolding fp_normalize_def by (rule normalize_with_last[OF s wf])

lemma row_normalized_gen:
  assumes i: "i < p" and len: "length xs = p * n"
  shows "row n (map (\<lambda>k. h (xs ! k) (row n xs (k div n))) [0..<p * n]) i
         = map (\<lambda>x. h x (row n xs i)) (row n xs i)"
proof (rule nth_equalityI)
  have b: "i * n + n \<le> p * n" using i by (rule row_bound)
  show "length (row n (map (\<lambda>k. h (xs ! k) (row n xs (k div n))) [0..<p * n]) i)
        = length (map (\<lambda>x. h x (row n xs i)) (row n xs i))"
    using b by (simp add: row_length len)
  fix j assume "j < length (row n (map (\<lambda>k. h (xs ! k) (row n xs (k div n))) [0..<p * n]) i)"
  then have j: "j < n" using b by (simp add: row_length)
  have lt: "i * n + j < p * n" using b j by simp
  show "row n (map (\<lambda>k. h (xs ! k) (row n xs (k div n))) [0..<p * n]) i ! j
        = map (\<lambda>x. h x (row n xs i)) (row n xs i) ! j"
    using b j lt by (simp add: row_nth row_length len div_row)
qed



lemma fp_log_arg_last:
  assumes s: "shape y_pred = bs @ [n]" and wf: "wf_tensor y_pred"
  shows "fp_log_arg cfg u y_pred =
           Inr \<lparr>shape = bs @ [n],
                vals = map (\<lambda>k. fmax (fmin (fdiv (fround u) (vals y_pred ! k)
                                               (fsum u (row n (vals y_pred) (k div n))))
                                        (fadd (fround u) (Fin 1) (fneg (fround u (epsilon cfg)))))
                                  (fround u (epsilon cfg)))
                         [0..<prod_list bs * n]\<rparr>"
  unfolding fp_log_arg_def fp_normalize_last[OF s wf] and_then_Inr
  by (simp add: fp_clip_by_value_def tmap_def Let_def o_def)

lemma mask_vals_gen:
  "select (map P xs) (map (\<lambda>_. z) xs) xs = map (\<lambda>y. if P y then z else y) xs"
  by (induction xs) (simp_all add: select_def)

lemma fp_probability_branch_last:
  assumes sp: "shape y_pred = bs @ [n]" and st: "shape y_true = bs @ [n]"
    and wfp: "wf_tensor y_pred" and wft: "wf_tensor y_true"
  shows "fp_probability_branch cfg u y_true y_pred =
           Inr \<lparr>shape = bs,
                vals = map (\<lambda>i. fp_row cfg u (row n (vals y_true) i) (row n (vals y_pred) i))
                         [0..<prod_list bs]\<rparr>"
proof -
  let ?eps = "fround u (epsilon cfg)"
  let ?hi = "fadd (fround u) (Fin 1) (fneg ?eps)"
  let ?m = "map (\<lambda>y. if feq y (fround u (MAGIC_NUMBER cfg)) then Fin 0 else y) (vals y_true)"
  let ?h = "\<lambda>x s. flog (fround u) (fmax (fmin (fdiv (fround u) x (fsum u s)) ?hi) ?eps)"
  let ?a = "map (\<lambda>k. ?h (vals y_pred ! k) (row n (vals y_pred) (k div n))) [0..<prod_list bs * n]"
  let ?terms = "\<lparr>shape = bs @ [n], vals = zip_with (fmul (fround u)) ?m ?a\<rparr>"
  let ?sums = "\<lparr>shape = bs,
               vals = map (\<lambda>i. fsum u (row n (zip_with (fmul (fround u)) ?m ?a) i)) [0..<prod_list bs]\<rparr>"
  have lenp: "length (vals y_pred) = prod_list bs * n"
    using wfp by (simp add: wf_tensor_def sp)
  have lent: "length (vals y_true) = prod_list bs * n"
    using wft by (simp add: wf_tensor_def st)
  have mask: "fp_mask_magic cfg u y_true = \<lparr>shape = bs @ [n], vals = ?m\<rparr>"
    by (simp add: fp_mask_magic_def mask_vals_gen st)
  have la: "tmap (flog (fround u)) \<lparr>shape = bs @ [n],
                vals = map (\<lambda>k. fmax (fmin (fdiv (fround u) (vals y_pred ! k)
                                               (fsum u (row n (vals y_pred) (k div n))))
                                        ?hi) ?eps)
                         [0..<prod_list bs * n]\<rparr> = \<lparr>shape = bs @ [n], vals = ?a\<rparr>"
    by (simp add: tmap_def o_def)
  have terms: "fp_terms cfg u y_true y_pred = Inr ?terms"
    unfolding fp_terms_def Let_def fp_log_arg_last[OF sp wfp] and_then_Inr mask la
    by (subst tf_binop_same_shape) (simp_all add: wf_tensor_def lent)
  have wf_terms: "wf_tensor ?terms"
    by (simp add: wf_tensor_def zip_with_def lent)
  have red: "reduce (fsum u) False ?terms (int (length (shape y_pred)) - 1) = Inr ?sums"
    by (subst reduce_last[where bs = bs and n = n, OF _ wf_terms]) (simp_all add: sp)
  have neg: "tmap fneg ?sums =
        \<lparr>shape = bs, vals = map (\<lambda>i. fneg (fsum u (row n (zip_with (fmul (fround u)) ?m ?a) i)))
                               [0..<prod_list bs]\<rparr>"
    by (simp add: tmap_def o_def)
  have rows: "map (\<lambda>i. fneg (fsum u (row n (zip_with (fmul (fround u)) ?m ?a) i))) [0..<prod_list bs]
        = map (\<lambda>i. fp_row cfg u (row n (vals y_true) i) (row n (vals y_pred) i)) [0..<prod_list bs]"
  proof (intro map_cong refl)
    fix i assume "i \<in> set [0..<prod_list bs]"
    then have i: "i < prod_list bs" by simp
    have ra: "row n ?a i = map (\<lambda>x. ?h x (row n (vals y_pred) i)) (row n (vals y_pred) i)"
      by (rule row_normalized_gen[OF i lenp])
    show "fneg (fsum u (row n (zip_with (fmul (fround u)) ?m ?a) i))
          = fp_row cfg u (row n (vals y_true) i) (row n (vals y_pred) i)"
      unfolding row_zip_with ra
      unfolding row_map fp_row_def Let_def
      by (simp add: map_map o_def)
  qed
  show ?thesis
    unfolding fp_probability_branch_def terms and_then_Inr red neg rows
    by simp
qed

lemma fp_normalize_scale:
  assumes s: "shape y_pred = bs @ [n]" and wf: "wf_tensor y_pred" and k: "0 < k"
    and scale: "\<forall>v\<in>set (vals y_pred). \<exists>a. v = Fin a \<and> fmul (fround u) (Fin k) v = Fin (k * a)"
    and sums: "\<forall>i<prod_list bs. \<exists>s. fsum u (row n (vals y_pred) i) = Fin s
                 \<and> fsum u (row n (map (fmul (fround u) (Fin k)) (vals y_pred)) i) = Fin (k * s)"
  shows "fp_normalize u (tmap (fmul (fround u) (Fin k)) y_pred) = fp_normalize u y_pred"
proof -
  have s': "shape (tmap (fmul (fround u) (Fin k)) y_pred) = bs @ [n]" by (simp add: shape_tmap s)
  have wf': "wf_tensor (tmap (fmul (fround u) (Fin k)) y_pred)" by (simp add: wf_tmap wf)
  have len: "length (vals y_pred) = prod_list bs * n"
    using wf by (simp add: wf_tensor_def s)
  have "map (\<lambda>j. fdiv (fround u) (vals (tmap (fmul (fround u) (Fin k)) y_pred) ! j)
                  (fsum u (row n (vals (tmap (fmul (fround u) (Fin k)) y_pred)) (j div n))))
          [0..<prod_list bs * n]
        = map (\<lambda>j. fdiv (fround u) (vals y_pred ! j) (fsum u (row n (vals y_pred) (j div n))))
            [0..<prod_list bs * n]"
  proof (intro map_cong refl)
    fix j assume "j \<in> set [0..<prod_list bs * n]"
    then have j: "j < prod_list bs * n" by simp
    then have "vals y_pred ! j \<in> set (vals y_pred)" using len by simp
    then obtain a where a: "vals y_pred ! j = Fin a"
      "fmul (fround u) (Fin k) (vals y_pred ! j) = Fin (k * a)" using scale by blast
    have "j div n < prod_list bs" using j by (rule div_bound)
    then obtain t where t: "fsum u (row n (vals y_pred) (j div n)) = Fin t"
      "fsum u (row n (map (fmul (fround u) (Fin k)) (vals y_pred)) (j div n)) = Fin (k * t)"
      using sums by blast
    have ra: "fround u (k * a) = Fin (k * a)" using a by simp
    have "fdiv (fround u) (Fin (k * a)) (Fin (k * t)) = fdiv (fround u) (Fin a) (Fin t)"
      using k by (simp add: zero_less_mult_iff)
    then show "fdiv (fround u) (vals (tmap (fmul (fround u) (Fin k)) y_pred) ! j)
                 (fsum u (row n (vals (tmap (fmul (fround u) (Fin k)) y_pred)) (j div n)))
               = fdiv (fround u) (vals y_pred ! j) (fsum u (row n (vals y_pred) (j div n)))"
      using j len by (simp add: vals_tmap a(1) ra t del: fdiv.simps)
  qed
  then show ?thesis
    unfolding fp_normalize_last[OF s' wf'] fp_normalize_last[OF s wf] by simp
qed

lemma max_float_bounds:
  "3 * 10 ^ 38 \<le> max_float" "max_float < 4 * 10 ^ 38" "0 < max_float"
  by (simp_all add: max_float_def)

lemma overflow_only_in_range:
  "\<bar>x\<bar> \<le> 3 * 10 ^ 38 \<Longrightarrow> overflow_only x = Fin x"
  using max_float_bounds(1) by (auto simp: overflow_only_def)

lemma upt_two: "[0..<2] = [0, Suc 0]"
  by (simp add: upt_rec)

lemma ln_lower: "0 < x \<Longrightarrow> 1 - 1 / x \<le> ln (x::real)"
proof -
  assume x: "0 < x"
  have "ln (1 / x) \<le> 1 / x - 1" using x by (intro ln_le_minus_one) simp
  then show ?thesis using x by (simp add: ln_div)
qed

lemma exp_2_le_9: "exp (2::real) \<le> 9"
proof -
  have "exp (2::real) = exp 1 * exp 1" by (simp flip: exp_add)
  also have "\<dots> \<le> 3 * 3" by (intro mult_mono exp_le) simp_all
  finally show ?thesis by simp
qed

lemma ln_eps_bounds:
  "ln (1 / 10 ^ 7 :: real) < - 2" "- (10 ^ 7) \<le> ln (1 / 10 ^ 7 :: real)"
proof -
  have "exp (2::real) < 10 ^ 7" using exp_2_le_9 by simp
  then have "ln (exp (2::real)) < ln (10 ^ 7)" by (subst ln_less_cancel_iff) simp_all
  then show "ln (1 / 10 ^ 7 :: real) < - 2" by (simp add: ln_div)
  show "- (10 ^ 7) \<le> ln (1 / 10 ^ 7 :: real)"
    using ln_lower[of "1 / 10 ^ 7 :: real"] by simp
qed

lemma overflow_only_ln_eps: "overflow_only (ln (1 / 10 ^ 7)) = Fin (ln (1 / 10 ^ 7))"
  using ln_eps_bounds by (intro overflow_only_in_range) (simp add: abs_if)

lemma overflow_only_ln_half: "overflow_only (ln (1 / 2)) = Fin (ln (1 / 2))"
proof -
  have "- 1 \<le> ln (1 / 2 :: real)" using ln_lower[of "1 / 2 :: real"] by simp
  moreover have "ln (1 / 2 :: real) \<le> 0" by simp
  ultimately show ?thesis by (intro overflow_only_in_range) (simp add: abs_if)
qed

lemma overflow_only_numeral [simp]:
  "overflow_only 0 = Fin 0" "overflow_only 1 = Fin 1"
  by (simp_all add: overflow_only_in_range)

lemma huge_times_ln_eps:
  "overflow_only (3 * 10 ^ 38 * ln (1 / 10 ^ 7)) = NInf"
  "overflow_only (- (3 * 10 ^ 38) * ln (1 / 10 ^ 7)) = PInf"
proof -
  have "3 * 10 ^ 38 * ln (1 / 10 ^ 7 :: real) < 3 * 10 ^ 38 * (- 2)"
    using ln_eps_bounds(1) by (intro mult_strict_left_mono) simp_all
  then have lt: "3 * 10 ^ 38 * ln (1 / 10 ^ 7 :: real) < - (4 * 10 ^ 38)" by simp
  then show "overflow_only (3 * 10 ^ 38 * ln (1 / 10 ^ 7)) = NInf"
    using max_float_bounds by (simp add: overflow_only_def)
  from lt have "4 * 10 ^ 38 < - (3 * 10 ^ 38) * ln (1 / 10 ^ 7 :: real)" by simp
  then show "overflow_only (- (3 * 10 ^ 38) * ln (1 / 10 ^ 7)) = PInf"
    using max_float_bounds by (simp add: overflow_only_def)
qed

lemmas ln_eps_numeral = overflow_only_ln_eps[simplified] huge_times_ln_eps[simplified]





lemma row_scaled:
  "fp_row legacy range_fpu [Fin 1, Fin 0] [Fin (2 * 10 ^ 38), Fin (2 * 10 ^ 38)]
   = Fin (- ln (1 / 10 ^ 7))"
proof -
  have "overflow_only (400000000000000000000000000000000000000) = PInf"
    using max_float_bounds(2) by (simp add: overflow_only_def)
  then show ?thesis
    by (simp add: fp_row_def range_fpu_def legacy_def zip_with_def fmin_def fmax_def
        overflow_only_in_range ln_eps_numeral)
qed

lemma row_plain:
  "fp_row legacy range_fpu [Fin 1, Fin 0] [Fin 2, Fin 2] = Fin (- ln (1 / 2))"
  by (simp add: fp_row_def range_fpu_def legacy_def zip_with_def fmin_def fmax_def
      overflow_only_in_range overflow_only_ln_half)

text \<open>
  Claim C6 says that the probability branch returns the same result for \<open>y_pred\<close> and
  for \<open>k * y_pred\<close>, for every positive \<open>k\<close>. In exact arithmetic it does (lemma
  \<open>exact_scale_invariant\<close>). Over machine numbers it does not: in the range of float32,
  for \<open>y_pred = [2, 2]\<close> and \<open>k = 10^38\<close> the products \<open>2 * 10^38\<close> are finite, their row
  sum \<open>4 * 10^38\<close> overflows to infinity, both quotients are \<open>0\<close> and are clipped to
  \<open>eps\<close>, and the loss of the label \<open>[1, 0]\<close> is \<open>- log(1e-7)\<close>, about \<open>16.1\<close>, where the
  unscaled prediction gives \<open>- log(1/2)\<close>, about \<open>0.69\<close>.
\<close>

theorem fp_scale_overflow:
  "fp_probability_branch legacy range_fpu fp_one_zero
      (tmap (fmul (fround range_fpu) (Fin (10 ^ 38))) fp_two_two)
     = Inr \<lparr>shape = [1], vals = [Fin (- ln (1 / 10 ^ 7))]\<rparr>
   \<and> fp_probability_branch legacy range_fpu fp_one_zero fp_two_two
     = Inr \<lparr>shape = [1], vals = [Fin (- ln (1 / 2))]\<rparr>
   \<and> - ln (1 / 10 ^ 7) \<noteq> - ln (1 / 2 :: real)"
proof -
  have sc: "tmap (fmul (fround range_fpu) (Fin (10 ^ 38))) fp_two_two
            = \<lparr>shape = [1, 2], vals = [Fin (2 * 10 ^ 38), Fin (2 * 10 ^ 38)]\<rparr>"
    by (simp add: tmap_def fp_two_two_def range_fpu_def overflow_only_in_range)
  have a: "fp_probability_branch legacy range_fpu fp_one_zero
             \<lparr>shape = [1, 2], vals = [Fin (2 * 10 ^ 38), Fin (2 * 10 ^ 38)]\<rparr>
           = Inr \<lparr>shape = [1], vals = [Fin (- ln (1 / 10 ^ 7))]\<rparr>"
    by (subst fp_probability_branch_last[where bs = "[1]" and n = 2])
       (simp_all add: fp_one_zero_def wf_tensor_def row_def row_scaled[simplified])
  have b: "fp_probability_branch legacy range_fpu fp_one_zero fp_two_two
           = Inr \<lparr>shape = [1], vals = [Fin (- ln (1 / 2))]\<rparr>"
    by (subst fp_probability_branch_last[where bs = "[1]" and n = 2])
       (simp_all add: fp_one_zero_def fp_two_two_def wf_tensor_def row_def row_plain)
  have "ln (1 / 10 ^ 7 :: real) < - 2" by (rule ln_eps_bounds)
  moreover have "- 1 \<le> ln (1 / 2 :: real)" using ln_lower[of "1 / 2 :: real"] by simp
  ultimately have c: "- ln (1 / 10 ^ 7) \<noteq> - ln (1 / 2 :: real)" by linarith
  show ?thesis unfolding sc using a b c by blast
qed

text \<open>
  Claim C6 as amended. For every \<open>y_true\<close>, every \<open>y_pred\<close> with finite entries and every
  positive \<open>k\<close> for which the scaling is exact, that is, every product \<open>k * y_pred\<close> is
  computed without rounding or overflow and every row sum of \<open>k * y_pred\<close> is computed
  as \<open>k\<close> times the finite row sum of \<open>y_pred\<close> (as for a power of two that keeps all
  values inside the normal range), the probability branch returns the same result for
  \<open>k * y_pred\<close> as for \<open>y_pred\<close>: the same value at every position, and a \<open>NaN\<close> or an
  infinity exactly where the other result has one.
\<close>

theorem fp_scale_invariant_when_exact:
  assumes "shape y_pred = bs @ [n]" and "wf_tensor y_pred" and "0 < k"
    and "\<forall>v\<in>set (vals y_pred). \<exists>a. v = Fin a \<and> fmul (fround u) (Fin k) v = Fin (k * a)"
    and "\<forall>i<prod_list bs. \<exists>s. fsum u (row n (vals y_pred) i) = Fin s
           \<and> fsum u (row n (map (fmul (fround u) (Fin k)) (vals y_pred)) i) = Fin (k * s)"
  shows "fp_probability_branch cfg u y_true (tmap (fmul (fround u) (Fin k)) y_pred)
         = fp_probability_branch cfg u y_true y_pred"
proof -
  have "fp_normalize u (tmap (fmul (fround u) (Fin k)) y_pred) = fp_normalize u y_pred"
    using assms by (rule fp_normalize_scale)
  then show ?thesis
    by (simp add: fp_probability_branch_def fp_terms_def fp_log_arg_def shape_tmap)
qed

theorem fp_scale_invariant_when_exact_witness:
  "shape fp_probs = [2] @ [2] \<and> wf_tensor fp_probs \<and> (0::real) < 2
   \<and> fmul (fround range_fpu) (Fin 2) (Fin 3) = Fin (2 * 3)
   \<and> fsum range_fpu (row 2 (vals fp_probs) 0) = Fin 4
   \<and> fsum range_fpu (row 2 (map (fmul (fround range_fpu) (Fin 2)) (vals fp_probs)) 0) = Fin (2 * 4)
   \<and> fp_probability_branch legacy range_fpu fp_labels (tmap (fmul (fround range_fpu) (Fin 2)) fp_probs)
       = fp_probability_branch legacy range_fpu fp_labels fp_probs"
proof -
  have h: "shape fp_probs = [2] @ [2]" "wf_tensor fp_probs" "(0::real) < 2"
    by (simp_all add: fp_probs_def wf_tensor_def)
  have sc: "\<forall>v\<in>set (vals fp_probs). \<exists>a. v = Fin a \<and> fmul (fround range_fpu) (Fin 2) v = Fin (2 * a)"
    by (simp add: fp_probs_def range_fpu_def overflow_only_in_range)
  have r0: "fsum range_fpu (row 2 (vals fp_probs) 0) = Fin 4"
    "fsum range_fpu (row 2 (map (fmul (fround range_fpu) (Fin 2)) (vals fp_probs)) 0) = Fin (2 * 4)"
    by (simp_all add: fp_probs_def range_fpu_def row_def overflow_only_in_range)
  have r1: "fsum range_fpu (row 2 (vals fp_probs) 1) = Fin 4"
    "fsum range_fpu (row 2 (map (fmul (fround range_fpu) (Fin 2)) (vals fp_probs)) 1) = Fin (2 * 4)"
    by (simp_all add: fp_probs_def range_fpu_def row_def overflow_only_in_range)
  have sm: "\<forall>i<prod_list [2]. \<exists>s. fsum range_fpu (row 2 (vals fp_probs) i) = Fin s
           \<and> fsum range_fpu (row 2 (map (fmul (fround range_fpu) (Fin 2)) (vals fp_probs)) i) = Fin (2 * s)"
    using r0 r1 by (auto simp: less_Suc_eq eval_nat_numeral)
  have m: "fmul (fround range_fpu) (Fin 2) (Fin 3) = Fin (2 * 3)"
    by (simp add: range_fpu_def overflow_only_in_range)
  from fp_scale_invariant_when_exact[OF h sc sm, of legacy fp_labels] show ?thesis
    using h r0 m by simp
qed

















section \<open>The logit branch of the categorical cross-entropy\<close>

lemma sum_exp_pos: "x \<in> set xs \<Longrightarrow> 0 < sum_list (map exp (xs :: real list))"
proof (induction xs)
  case Nil then show ?case by simp
next
  case (Cons a xs)
  have "0 \<le> sum_list (map exp xs)" by (rule sum_list_nonneg) auto
  moreover have "0 < exp a" by simp
  ultimately show ?case by (simp add: add_pos_nonneg)
qed

lemma log_softmax_direct:
  "log_softmax xs = map (\<lambda>x. ln (exp x / sum_list (map exp xs))) xs"
  unfolding log_softmax_def
proof (rule map_cong[OF refl])
  fix x assume "x \<in> set xs"
  then have "0 < sum_list (map exp xs)" by (rule sum_exp_pos)
  then show "x - ln (sum_list (map exp xs)) = ln (exp x / sum_list (map exp xs))"
    by (simp add: ln_div)
qed

text \<open>
  Claim C7. With \<open>from_logits = True\<close> the function returns what the engine's softmax
  cross-entropy with logits returns for \<open>labels = y_true\<close> and \<open>logits = y_pred\<close>: for
  each row along the last axis, \<open>- sum (y_true * log (softmax y_pred))\<close>. Neither the
  sentinel nor \<open>epsilon\<close> enters: a label equal to the sentinel is passed on as it is.
\<close>

theorem logit_mode_is_softmax_cross_entropy:
  assumes "shape y_pred = bs @ [n]" and "shape y_true = shape y_pred"
  shows "categorical_cross_entropy cfg y_true y_pred True
           = softmax_cross_entropy_with_logits y_true y_pred
         \<and> categorical_cross_entropy cfg y_true y_pred True
           = Inr \<lparr>shape = bs,
                  vals = map (\<lambda>i. - sum_list (zip_with (*) (row n (vals y_true) i)
                                     (map (\<lambda>x. ln (exp x / sum_list (map exp (row n (vals y_pred) i))))
                                        (row n (vals y_pred) i))))
                           [0..<prod_list bs]\<rparr>"
  using assms
  by (simp add: categorical_cross_entropy_def softmax_cross_entropy_with_logits_def
      log_softmax_direct)

theorem logit_mode_is_softmax_cross_entropy_witness:
  "shape \<lparr>shape = [1, 2], vals = [0, 0]\<rparr> = [1] @ [2]
   \<and> shape \<lparr>shape = [1, 2], vals = [- 9999, 0]\<rparr> = shape \<lparr>shape = [1, 2], vals = [0, 0]\<rparr>
   \<and> categorical_cross_entropy legacy \<lparr>shape = [1, 2], vals = [- 9999, 0]\<rparr>
         \<lparr>shape = [1, 2], vals = [0, 0]\<rparr> True
       = softmax_cross_entropy_with_logits \<lparr>shape = [1, 2], vals = [- 9999, 0]\<rparr>
           \<lparr>shape = [1, 2], vals = [0, 0]\<rparr>
   \<and> categorical_cross_entropy legacy \<lparr>shape = [1, 2], vals = [- 9999, 0]\<rparr>
         \<lparr>shape = [1, 2], vals = [0, 0]\<rparr> True
       = Inr \<lparr>shape = [1], vals = [- 9999 * ln 2]\<rparr>"
  using logit_mode_is_softmax_cross_entropy[of "\<lparr>shape = [1, 2], vals = [0, 0]\<rparr>" "[1]" 2
      "\<lparr>shape = [1, 2], vals = [- 9999, 0]\<rparr>" legacy]
  by (auto simp: row_def zip_with_def ln_div)

section \<open>The binary cross-entropy\<close>

lemma raw_loss_ln3:
  "raw_loss [y] [ln 3] = [ln 3 - ln 3 * y + ln (4 / 3)]"
  by (simp add: raw_loss_def zip_with_def relu_logits_def neg_abs_logits_def select_def
      zeros_like_def exp_minus)

lemma reduce_mean_single:
  "reduce_mean \<lparr>shape = [1, 1], vals = [x]\<rparr> (- 1) = Inr \<lparr>shape = [1], vals = [x]\<rparr>"
  unfolding reduce_mean_def
  by (subst reduce_last[where bs = "[1]" and n = 1])
     (simp_all add: wf_tensor_def row_def mean_def)

lemma logit_three_quarters:
  "tmap (\<lambda>p. ln (p / (1 - p))) three_quarters = \<lparr>shape = [1, 1], vals = [ln 3]\<rparr>"
  by (simp add: tmap_def three_quarters_def)

lemma logit_clipped_three_quarters:
  assumes "epsilon cfg = 1 / 10000000"
  shows "tmap (\<lambda>p. ln (p / (1 - p))) (clip_by_value three_quarters (epsilon cfg) (1 - epsilon cfg))
         = \<lparr>shape = [1, 1], vals = [ln 3]\<rparr>"
  by (simp add: assms tmap_def clip_by_value_def three_quarters_def)

lemma mask_missing_label:
  assumes "MAGIC_NUMBER cfg = - 9999"
  shows "mask_magic cfg missing_label = \<lparr>shape = [1, 1], vals = [0]\<rparr>"
  by (simp add: assms mask_magic_eq tmap_def missing_label_def)

lemma sigmoid_single:
  "astronn_sigmoid_cross_entropy_with_logits cfg
     \<lparr>shape = [1, 1], vals = [y]\<rparr> \<lparr>shape = [1, 1], vals = [ln 3]\<rparr>
   = Inr \<lparr>shape = [1, 1],
          vals = [if tensor_equality cfg \<and> y = MAGIC_NUMBER cfg then 0
                  else ln 3 - ln 3 * y + ln (4 / 3)]\<rparr>"
  by (simp add: astronn_sigmoid_cross_entropy_with_logits_def tensor_eq_def tf_equal_def
      raw_loss_ln3 select_def zeros_like_def)

lemma binary_probability_mode_on_sentinel:
  assumes "epsilon cfg = 1 / 10000000" and "MAGIC_NUMBER cfg = - 9999"
  shows "binary_cross_entropy cfg missing_label three_quarters False
         = Inr \<lparr>shape = [1], vals = [ln 3 + ln (4 / 3)]\<rparr>"
  unfolding binary_cross_entropy_def
  by (simp add: logit_clipped_three_quarters[OF assms(1)] mask_missing_label[OF assms(2)]
      sigmoid_single assms(2) reduce_mean_single del: One_nat_def)

lemma binary_logit_mode_on_sentinel:
  assumes "MAGIC_NUMBER cfg = - 9999"
  shows "binary_cross_entropy cfg missing_label (tmap (\<lambda>p. ln (p / (1 - p))) three_quarters) True
         = Inr \<lparr>shape = [1],
                vals = [if tensor_equality cfg then 0 else ln 3 + ln 3 * 9999 + ln (4 / 3)]\<rparr>"
  unfolding binary_cross_entropy_def logit_three_quarters
  by (simp add: missing_label_def sigmoid_single assms reduce_mean_single del: One_nat_def)

lemma binary_modes_agree_without_sentinel:
  assumes "MAGIC_NUMBER cfg \<notin> set (vals y_true)"
    and "\<forall>p \<in> set (vals y_pred). epsilon cfg \<le> p \<and> p \<le> 1 - epsilon cfg"
  shows "binary_cross_entropy cfg y_true y_pred False
         = binary_cross_entropy cfg y_true (tmap (\<lambda>p. ln (p / (1 - p))) y_pred) True"
proof -
  have "map (\<lambda>y. if y = MAGIC_NUMBER cfg then 0 else y) (vals y_true) = vals y_true"
    using assms(1) by (intro map_idI) auto
  then have m: "mask_magic cfg y_true = y_true"
    by (simp add: mask_magic_eq tmap_def)
  have "map (\<lambda>x. max (min x (1 - epsilon cfg)) (epsilon cfg)) (vals y_pred) = vals y_pred"
    using assms(2) by (intro map_idI) auto
  then have c: "clip_by_value y_pred (epsilon cfg) (1 - epsilon cfg) = y_pred"
    by (simp add: clip_by_value_def tmap_def)
  show ?thesis
    by (simp add: binary_cross_entropy_def m c)
qed

text \<open>
  Claim C8 says that for every \<open>y_true\<close> the probability mode on \<open>p\<close> agrees with the
  logit mode on \<open>log(p / (1 - p))\<close>. Where \<open>y_true\<close> holds no sentinel the two agree
  (lemma \<open>binary_modes_agree_without_sentinel\<close>), and both are the mean over the last axis
  of the sigmoid cross-entropy. On a missing label they differ: the probability branch
  replaces the sentinel by the label \<open>0\<close> and returns the loss of that label, for
  \<open>p = 3/4\<close> the value \<open>log 3 + log (4/3)\<close>; the logit branch keeps the sentinel and
  returns \<open>0\<close> where \<open>==\<close> is elementwise, and the loss of the label \<open>-9999\<close> under
  TensorFlow 1.x.
\<close>

theorem binary_modes_disagree_on_sentinel:
  "binary_cross_entropy elementwise missing_label three_quarters False
     = Inr \<lparr>shape = [1], vals = [ln 3 + ln (4 / 3)]\<rparr>
   \<and> binary_cross_entropy elementwise missing_label
        (tmap (\<lambda>p. ln (p / (1 - p))) three_quarters) True
     = Inr \<lparr>shape = [1], vals = [0]\<rparr>
   \<and> binary_cross_entropy legacy missing_label three_quarters False
     = Inr \<lparr>shape = [1], vals = [ln 3 + ln (4 / 3)]\<rparr>
   \<and> binary_cross_entropy legacy missing_label
        (tmap (\<lambda>p. ln (p / (1 - p))) three_quarters) True
     = Inr \<lparr>shape = [1], vals = [ln 3 + ln 3 * 9999 + ln (4 / 3)]\<rparr>
   \<and> ln 3 + ln (4 / 3) \<noteq> (0::real)
   \<and> ln 3 + ln (4 / 3) \<noteq> ln 3 + ln 3 * 9999 + ln (4 / 3 :: real)"
proof -
  have p: "0 < ln (3::real)" "0 < ln (4 / 3 :: real)" by simp_all
  have a: "binary_cross_entropy elementwise missing_label three_quarters False
     = Inr \<lparr>shape = [1], vals = [ln 3 + ln (4 / 3)]\<rparr>"
    by (rule binary_probability_mode_on_sentinel) (simp_all add: elementwise_def)
  have b: "binary_cross_entropy elementwise missing_label
        (tmap (\<lambda>p. ln (p / (1 - p))) three_quarters) True
     = Inr \<lparr>shape = [1], vals = [0]\<rparr>"
    by (subst binary_logit_mode_on_sentinel) (simp_all add: elementwise_def)
  have c: "binary_cross_entropy legacy missing_label three_quarters False
     = Inr \<lparr>shape = [1], vals = [ln 3 + ln (4 / 3)]\<rparr>"
    by (rule binary_probability_mode_on_sentinel) (simp_all add: legacy_def)
  have d: "binary_cross_entropy legacy missing_label
        (tmap (\<lambda>p. ln (p / (1 - p))) three_quarters) True
     = Inr \<lparr>shape = [1], vals = [ln 3 + ln 3 * 9999 + ln (4 / 3)]\<rparr>"
    by (subst binary_logit_mode_on_sentinel) (simp_all add: legacy_def)
  have e: "ln 3 + ln (4 / 3) \<noteq> (0::real)" using p by linarith
  have f: "ln 3 + ln (4 / 3) \<noteq> ln 3 + ln 3 * 9999 + ln (4 / 3 :: real)" using p by simp
  show ?thesis using a b c d e f by blast
qed

section \<open>The Bayesian cross-entropy\<close>

lemma index_at_width_out_of_range:
  "shape_at y_pred 1 = Inr n \<Longrightarrow> \<exists>e. index_axis1 y_pred n = Inl e"
  by (cases "shape y_pred"; cases "tl (shape y_pred)")
     (auto simp: shape_at_def index_axis1_def split: if_splits)

lemma bayesian_crossentropy_always_fails:
  "\<exists>e. bayesian_crossentropy cfg from_logits rnd y_true y_pred = Inl e"
proof (cases "shape_at y_pred 1")
  case (Inl e)
  then show ?thesis
    by (simp add: bayesian_crossentropy_def bayesian_crossentropy_run_def bind_local_def)
next
  case (Inr n)
  from index_at_width_out_of_range[OF this] obtain e where "index_axis1 y_pred n = Inl e"
    by blast
  then show ?thesis using Inr
    by (simp add: bayesian_crossentropy_def bayesian_crossentropy_run_def bind_local_def)
qed

lemma gaussian_crossentropy_tensor_has_no_sample:
  "gaussian_crossentropy cfg true pred (TensorObj d) undistorted_loss num_classes t i
   = Inl (AttributeError ''sample'')"
  by (simp add: gaussian_crossentropy_def py_sample_def)

lemma monte_carlo_fails_on_tensor:
  "tf_map_fn (gaussian_crossentropy cfg true pred (TensorObj d) undistorted_loss num_classes)
     (tf_ones 25) = Inl (AttributeError ''sample'')"
proof -
  have "vals (tf_ones 25) = 1 # replicate 24 1"
    by (simp add: tf_ones_def eval_nat_numeral)
  then show ?thesis
    by (simp add: tf_map_fn_def gaussian_crossentropy_tensor_has_no_sample upt_rec[of 0])
qed

text \<open>
  Claim C3 says that the function returned by \<open>bayesian_crossentropy_wrapper\<close> computes
  \<open>variance_loss + undistorted_loss + variance_depressor\<close> from 25 Monte Carlo draws of
  a distribution. The source is written to do so, and never gets there:
  \<open>num_classes = tf.shape(y_pred)[1]\<close> is the full width of \<open>y_pred\<close>, so
  \<open>y_pred[:, num_classes]\<close> is out of range for every input (lemma
  \<open>bayesian_crossentropy_always_fails\<close>); and the object passed as \<open>dist\<close> is the tensor
  returned by \<open>tf.random_normal\<close>, which has no \<open>sample\<close> method, so the Monte Carlo loop
  fails in its first evaluation.
\<close>

theorem bayesian_crossentropy_raises:
  "bayesian_crossentropy_wrapper legacy True rnd two_classes three_columns
     = Inl (InvalidArgumentError ''slice index 3 of dimension 1 out of bounds'')
   \<and> tf_map_fn (gaussian_crossentropy legacy two_classes three_columns
                  (TensorObj (random_normal rnd (tmap (\<lambda>_. 0) (bc_std three_columns))
                                (bc_std three_columns)))
                  undistorted_loss 3)
        (tf_ones 25) = Inl (AttributeError ''sample'')"
  by (simp add: bayesian_crossentropy_wrapper_def bayesian_crossentropy_def
      bayesian_crossentropy_run_def bind_local_def
      shape_at_def index_axis1_def three_columns_def string_of_nat.simps
      monte_carlo_fails_on_tensor)

lemma three_columns_sliced: "slice_axis1 three_columns 0 3 = Inr three_columns"
  by (simp add: slice_axis1_def three_columns_def upt_rec)

text \<open>
  Claim C4 says that for a \<open>y_pred\<close> of width \<open>num_classes + 1\<close> the loss takes the first
  \<open>num_classes\<close> columns as \<open>pred\<close> and the remaining column as \<open>variance\<close>, computes
  \<open>std\<close> from the whole tensor, and goes on to the variance depressor and the undistorted
  loss. For a \<open>y_pred\<close> of three columns (two class scores and a variance) the run binds
  \<open>T = 25\<close>, then \<open>num_classes = 3\<close>, the full width and not \<open>2\<close>, then \<open>std\<close> as the
  square root of all three columns, and ends in \<open>variance = y_pred[:, 3]\<close>, out of range:
  no variance, depressor, \<open>pred\<close> or loss is ever bound. With \<open>num_classes = 3\<close> the
  slice \<open>y_pred[:, 0:3]\<close> of the next line is all of \<open>y_pred\<close>, not its first two columns.
\<close>

theorem bayesian_split_off_by_one:
  "bayesian_crossentropy_run legacy True rnd two_classes three_columns
     = ([(''T'', IntV 25), (''num_classes'', IntV 3),
         (''std'', TensorV \<lparr>shape = [1, 3], vals = [sqrt (1 / 2), sqrt (3 / 10), sqrt (1 / 5)]\<rparr>)],
        Inl (InvalidArgumentError ''slice index 3 of dimension 1 out of bounds''))
   \<and> slice_axis1 three_columns 0 3 = Inr three_columns"
proof -
  have "bayesian_crossentropy_run legacy True rnd two_classes three_columns
     = ([(''T'', IntV 25), (''num_classes'', IntV 3),
         (''std'', TensorV \<lparr>shape = [1, 3], vals = [sqrt (1 / 2), sqrt (3 / 10), sqrt (1 / 5)]\<rparr>)],
        Inl (InvalidArgumentError ''slice index 3 of dimension 1 out of bounds''))"
    by (simp add: bayesian_crossentropy_run_def bind_local_def shape_at_def index_axis1_def
        bc_std_def tmap_def three_columns_def string_of_nat.simps)
  then show ?thesis using three_columns_sliced by blast
qed

end
